theory Spec2Isabelle
  imports Main
begin

section \<open>Request values\<close>

text \<open>
  A field of a request body (\<^verbatim>\<open>req.body\<close>) is absent (\<^verbatim>\<open>undefined\<close>), \<^verbatim>\<open>null\<close> or a
  value. Text fields carry strings; identifiers (UUID text in the source) are natural
  numbers here and dates are day numbers, so an identifier or a date that is present is
  never the empty string.
\<close>

datatype 'a jsv = Undefined | Null | Val 'a

text \<open>JavaScript truthiness of a text field: \<^verbatim>\<open>!x\<close> holds for undefined, null and "".\<close>

definition truthy :: "string jsv \<Rightarrow> bool" where
  "truthy v = (case v of Val s \<Rightarrow> s \<noteq> [] | _ \<Rightarrow> False)"

text \<open>Truthiness of an identifier or date field: a present value is a non-empty text.\<close>

definition present :: "'a jsv \<Rightarrow> bool" where
  "present v = (case v of Val _ \<Rightarrow> True | _ \<Rightarrow> False)"

text \<open>\<^verbatim>\<open>x || null\<close> for a text field and for an identifier or date field.\<close>

definition or_null :: "string jsv \<Rightarrow> string option" where
  "or_null v = (case v of Val s \<Rightarrow> (if s = [] then None else Some s) | _ \<Rightarrow> None)"

definition ref_or_null :: "'a jsv \<Rightarrow> 'a option" where
  "ref_or_null v = (case v of Val x \<Rightarrow> Some x | _ \<Rightarrow> None)"

text \<open>
  A column of a partial update: a field left out of \<^verbatim>\<open>updateData\<close> keeps the old value,
  \<^verbatim>\<open>null\<close> stores SQL NULL, a value stores itself.
\<close>

definition set_column :: "'a jsv \<Rightarrow> 'a option \<Rightarrow> 'a option" where
  "set_column v old = (case v of Undefined \<Rightarrow> old | Null \<Rightarrow> None | Val x \<Rightarrow> Some x)"

section \<open>Responses and error kinds\<close>

text \<open>
  A handler answers \<^verbatim>\<open>res.status(c).json(...)\<close>: a failure carries the status code and the
  message (a dash in a message is written \<^verbatim>\<open>-\<close>), a success the status code and the row
  or rows of the body. The error kinds are the HTTP status codes of an answer: 400 is a
  validation error, 403 forbidden, 404 not found, 409 a conflict, 500 a failure of the
  store.
\<close>

datatype 'a response = Failure nat string | Success nat 'a

datatype error = ValidationError | NotFoundError | ForbiddenError | ConflictError | StoreError

definition error_of_status :: "nat \<Rightarrow> error option" where
  "error_of_status c =
     (if c = 400 then Some ValidationError
      else if c = 403 then Some ForbiddenError
      else if c = 404 then Some NotFoundError
      else if c = 409 then Some ConflictError
      else if c = 500 then Some StoreError
      else None)"

definition fails_with :: "'a response \<Rightarrow> error \<Rightarrow> bool" where
  "fails_with r e = (case r of Failure c _ \<Rightarrow> error_of_status c = Some e | Success _ _ \<Rightarrow> False)"

definition succeeds :: "'a response \<Rightarrow> bool" where
  "succeeds r = (case r of Failure _ _ \<Rightarrow> False | Success _ _ \<Rightarrow> True)"

section \<open>The relational store\<close>

text \<open>
  The tables that \<^verbatim>\<open>connectDB\<close> of \<^verbatim>\<open>config/db.js\<close> creates when the server starts, each
  a list of rows in insertion order, which is the order of \<^verbatim>\<open>created_at\<close> and
  \<^verbatim>\<open>joined_at\<close>. The columns are those the task, class and notification handlers read or
  write; the timestamps the store keeps by itself are the list order.
  \<^verbatim>\<open>gen_random_uuid()\<close> is the counter \<open>next_id\<close>. Where \<^verbatim>\<open>supabase/migration.sql\<close>
  differs (it sets \<^verbatim>\<open>notifications.task_id\<close> to NULL when a task is deleted and has no
  foreign key on \<^verbatim>\<open>class_id\<close>), \<^verbatim>\<open>connectDB\<close> is followed.
\<close>

datatype role = Student | Teacher | Admin

record actor =
  a_id :: nat
  a_role :: role

record user_row =
  u_id :: nat
  u_name :: string
  u_role :: role

record class_row =
  c_id :: nat
  c_name :: string
  c_description :: "string option"
  invite_code :: "nat list"
  teacher_id :: nat

record member_row =
  m_id :: nat
  m_class_id :: nat
  m_user_id :: nat

record task_row =
  t_id :: nat
  title :: string
  description :: "string option"
  due_date :: "nat option"
  priority :: "string option"
  status :: "string option"
  created_by :: nat
  assignee_id :: "nat option"
  class_id :: "nat option"

record notification_row =
  n_id :: nat
  n_user_id :: nat
  n_type :: string
  n_title :: string
  n_message :: string
  n_task_id :: "nat option"
  n_class_id :: "nat option"
  is_read :: bool

record store =
  users :: "user_row list"
  classes :: "class_row list"
  class_members :: "member_row list"
  tasks :: "task_row list"
  notifications :: "notification_row list"
  next_id :: nat

text \<open>
  \<^verbatim>\<open>.single()\<close> yields the row when the query matches exactly one and an error with no
  data otherwise; \<^verbatim>\<open>.maybeSingle()\<close> yields the row when exactly one matches, no data
  and no error when none does, and an error with no data when several do. The handlers
  read only the data of a \<^verbatim>\<open>maybeSingle\<close>.
\<close>

definition single :: "'a list \<Rightarrow> 'a option" where
  "single rows = (case rows of [r] \<Rightarrow> Some r | _ \<Rightarrow> None)"

definition maybeSingle :: "'a list \<Rightarrow> 'a option" where
  "maybeSingle rows = (case rows of [] \<Rightarrow> None | [r] \<Rightarrow> Some r | _ \<Rightarrow> None)"

definition user_ids :: "store \<Rightarrow> nat list" where
  "user_ids s = map u_id (users s)"

definition class_ids :: "store \<Rightarrow> nat list" where
  "class_ids s = map c_id (classes s)"

definition task_ids :: "store \<Rightarrow> nat list" where
  "task_ids s = map t_id (tasks s)"

definition references :: "nat option \<Rightarrow> nat list \<Rightarrow> bool" where
  "references r ids = (case r of None \<Rightarrow> True | Some i \<Rightarrow> i \<in> set ids)"

text \<open>
  The constraints of table \<^verbatim>\<open>tasks\<close>: \<^verbatim>\<open>title VARCHAR(255) NOT NULL\<close>, the CHECK
  constraints on \<^verbatim>\<open>priority\<close> and \<^verbatim>\<open>status\<close> (a NULL passes a CHECK), and the foreign keys
  of \<^verbatim>\<open>created_by\<close>, \<^verbatim>\<open>assignee_id\<close> and \<^verbatim>\<open>class_id\<close>.
\<close>

definition task_row_ok :: "store \<Rightarrow> task_row \<Rightarrow> bool" where
  "task_row_ok s t =
     (length (title t) \<le> 255
      \<and> priority t \<in> {None, Some ''low'', Some ''medium'', Some ''high''}
      \<and> status t \<in> {None, Some ''todo'', Some ''in-progress'', Some ''completed''}
      \<and> created_by t \<in> set (user_ids s)
      \<and> references (assignee_id t) (user_ids s)
      \<and> references (class_id t) (class_ids s))"

text \<open>The constraints of table \<^verbatim>\<open>notifications\<close>.\<close>

definition notification_row_ok :: "store \<Rightarrow> notification_row \<Rightarrow> bool" where
  "notification_row_ok s n =
     (n_user_id n \<in> set (user_ids s)
      \<and> n_type n \<in> {''task_assigned'', ''task_completed'', ''task_overdue'', ''class_joined''}
      \<and> length (n_title n) \<le> 255
      \<and> references (n_task_id n) (task_ids s)
      \<and> references (n_class_id n) (class_ids s))"

text \<open>
  The constraints of table \<^verbatim>\<open>class_members\<close>: both foreign keys and
  \<^verbatim>\<open>UNIQUE(class_id, user_id)\<close>.
\<close>

definition member_row_ok :: "store \<Rightarrow> member_row \<Rightarrow> bool" where
  "member_row_ok s m =
     (m_class_id m \<in> set (class_ids s)
      \<and> m_user_id m \<in> set (user_ids s)
      \<and> [x \<leftarrow> class_members s. m_class_id x = m_class_id m \<and> m_user_id x = m_user_id m] = [])"

section \<open>Notification dispatcher\<close>

text \<open>
  \<^verbatim>\<open>createNotification\<close> inserts one row; an error of the store is logged and never
  reaches the caller, so a row the store refuses leaves the store as it was.
\<close>

definition createNotification ::
  "store \<Rightarrow> nat \<Rightarrow> string \<Rightarrow> string \<Rightarrow> string \<Rightarrow> nat option \<Rightarrow> nat option \<Rightarrow> store" where
  "createNotification s uid ntype ntitle msg tid cid =
     (let n = \<lparr>n_id = next_id s, n_user_id = uid, n_type = ntype, n_title = ntitle,
                n_message = msg, n_task_id = tid, n_class_id = cid, is_read = False\<rparr>
      in if notification_row_ok s n
         then s\<lparr>notifications := notifications s @ [n], next_id := Suc (next_id s)\<rparr>
         else s)"

text \<open>The text of a day number, and of a \<^verbatim>\<open>due_date\<close> inside a message.\<close>

fun show_nat :: "nat \<Rightarrow> string" where
  "show_nat n =
     (if n < 10 then [char_of (48 + n)] else show_nat (n div 10) @ [char_of (48 + n mod 10)])"

definition show_due :: "nat option \<Rightarrow> string" where
  "show_due d = (case d of None \<Rightarrow> ''null'' | Some n \<Rightarrow> show_nat n)"

definition quoted :: "string \<Rightarrow> string" where
  "quoted x = [CHR 0x22] @ x @ [CHR 0x22]"

text \<open>
  \<^verbatim>\<open>checkOverdueTasks\<close>: the tasks with \<^verbatim>\<open>due_date < today\<close> and
  \<^verbatim>\<open>status <> 'completed'\<close> (a NULL in either column fails the comparison), and for each
  of them, in turn, the lookup of an earlier \<^verbatim>\<open>task_overdue\<close> notification by
  \<^verbatim>\<open>maybeSingle\<close>, the insert when it gave no data, and the count.
\<close>

definition overdue :: "nat \<Rightarrow> task_row \<Rightarrow> bool" where
  "overdue today t =
     ((case due_date t of None \<Rightarrow> False | Some d \<Rightarrow> d < today)
      \<and> (case status t of None \<Rightarrow> False | Some st \<Rightarrow> st \<noteq> ''completed''))"

definition is_overdue_notification :: "task_row \<Rightarrow> notification_row \<Rightarrow> bool" where
  "is_overdue_notification t n =
     (n_task_id n = Some (t_id t) \<and> n_type n = ''task_overdue'' \<and> n_user_id n = created_by t)"

definition overdue_notifications :: "store \<Rightarrow> task_row \<Rightarrow> notification_row list" where
  "overdue_notifications s t = filter (is_overdue_notification t) (notifications s)"

definition overdue_message :: "task_row \<Rightarrow> string" where
  "overdue_message t =
     quoted (title t) @ '' is past its due date ('' @ show_due (due_date t)
       @ '') and hasn't been completed yet.''"

fun notify_overdue :: "task_row list \<Rightarrow> nat \<Rightarrow> store \<Rightarrow> nat \<times> store" where
  "notify_overdue [] notifiedCount s = (notifiedCount, s)"
| "notify_overdue (t # ts) notifiedCount s =
     (case maybeSingle (overdue_notifications s t) of
        None \<Rightarrow>
          notify_overdue ts (Suc notifiedCount)
            (createNotification s (created_by t) ''task_overdue'' ''Task Overdue''
               (overdue_message t) (Some (t_id t)) None)
      | Some existing \<Rightarrow> notify_overdue ts notifiedCount s)"

definition checkOverdueTasks :: "nat \<Rightarrow> store \<Rightarrow> nat response \<times> store" where
  "checkOverdueTasks today s =
     (let overdueTasks = filter (overdue today) (tasks s)
      in if overdueTasks = [] then (Success 200 0, s)
         else (case notify_overdue overdueTasks 0 s of
                 (notifiedCount, s') \<Rightarrow> (Success 200 notifiedCount, s')))"

section \<open>Task handlers\<close>

record task_payload =
  p_title :: "string jsv"
  p_description :: "string jsv"
  p_due_date :: "nat jsv"
  p_priority :: "string jsv"
  p_status :: "string jsv"
  p_created_by :: "nat jsv"
  p_assignee_id :: "nat jsv"
  p_class_id :: "nat jsv"

definition text_of :: "string jsv \<Rightarrow> string" where
  "text_of v = (case v of Val x \<Rightarrow> x | _ \<Rightarrow> [])"

definition task_by_id :: "store \<Rightarrow> nat \<Rightarrow> task_row option" where
  "task_by_id s i = single [t \<leftarrow> tasks s. t_id t = i]"

definition class_by_id :: "store \<Rightarrow> nat \<Rightarrow> class_row option" where
  "class_by_id s i = single [c \<leftarrow> classes s. c_id c = i]"

definition user_by_id :: "store \<Rightarrow> nat \<Rightarrow> user_row option" where
  "user_by_id s i = single [x \<leftarrow> users s. u_id x = i]"

text \<open>
  \<^verbatim>\<open>createTask\<close>. The handler reads \<^verbatim>\<open>title, description, due_date, priority,
  assignee_id, class_id\<close> from the body and nothing else; \<^verbatim>\<open>status\<close> and \<^verbatim>\<open>created_by\<close>
  of the inserted row are the literal \<^verbatim>\<open>"todo"\<close> and \<^verbatim>\<open>req.user.id\<close>.
\<close>

definition taskData :: "store \<Rightarrow> actor \<Rightarrow> task_payload \<Rightarrow> task_row" where
  "taskData s u p =
     \<lparr>t_id = next_id s,
      title = text_of (p_title p),
      description = or_null (p_description p),
      due_date = ref_or_null (p_due_date p),
      priority = (case or_null (p_priority p) of None \<Rightarrow> Some ''medium'' | Some x \<Rightarrow> Some x),
      status = Some ''todo'',
      created_by = a_id u,
      assignee_id = ref_or_null (p_assignee_id p),
      class_id = ref_or_null (p_class_id p)\<rparr>"

definition createTask :: "store \<Rightarrow> actor \<Rightarrow> task_payload \<Rightarrow> task_row response \<times> store" where
  "createTask s u p =
     (if \<not> truthy (p_title p) then (Failure 400 ''Title is required'', s)
      else if present (p_class_id p)
              \<and> (case ref_or_null (p_class_id p) of None \<Rightarrow> False
                  | Some c \<Rightarrow> class_by_id s c = None)
           then (Failure 400 ''Invalid class'', s)
      else if present (p_class_id p)
              \<and> (case ref_or_null (p_class_id p) of None \<Rightarrow> False
                  | Some c \<Rightarrow> (case class_by_id s c of None \<Rightarrow> False
                      | Some cls \<Rightarrow> a_role u \<noteq> Admin \<and> teacher_id cls \<noteq> a_id u))
           then (Failure 400 ''You don't own this class'', s)
      else if present (p_assignee_id p)
              \<and> (case ref_or_null (p_assignee_id p) of None \<Rightarrow> False
                  | Some a \<Rightarrow> user_by_id s a = None)
           then (Failure 400 ''Assignee not found'', s)
      else if \<not> task_row_ok s (taskData s u p) then (Failure 500 ''Failed to create task'', s)
      else
        (let task = taskData s u p;
             s1 = s\<lparr>tasks := tasks s @ [task], next_id := Suc (next_id s)\<rparr>
         in (Success 201 task,
             (case assignee_id task of
                None \<Rightarrow> s1
              | Some a \<Rightarrow>
                  createNotification s1 a ''task_assigned'' ''New Task Assigned''
                    (''You've been assigned a new task: '' @ quoted (title task))
                    (Some (t_id task)) (class_id task)))))"

text \<open>
  The store's \<^verbatim>\<open>ILIKE\<close> as the handlers reach it: \<^verbatim>\<open>%\<close> (or \<^verbatim>\<open>*\<close>, its alias in the
  query string) matches any run of characters, \<^verbatim>\<open>_\<close> any one character, a backslash
  takes the next character literally, and letters match without regard to case.
\<close>

definition lower :: "char \<Rightarrow> char" where
  "lower c = (if 65 \<le> (of_char c :: nat) \<and> (of_char c :: nat) \<le> 90
              then char_of ((of_char c :: nat) + 32) else c)"

fun like :: "string \<Rightarrow> string \<Rightarrow> bool" where
  "like [] t = (t = [])"
| "like (p # ps) [] = ((p = CHR ''%'' \<or> p = CHR ''*'') \<and> like ps [])"
| "like (p # ps) (c # cs) =
     (if p = CHR ''%'' \<or> p = CHR ''*'' then like ps (c # cs) \<or> like (p # ps) cs
      else if p = CHR 0x5C then (case ps of [] \<Rightarrow> False | q # qs \<Rightarrow> q = c \<and> like qs cs)
      else (p = CHR ''_'' \<or> p = c) \<and> like ps cs)"

definition ilike :: "string \<Rightarrow> string \<Rightarrow> bool" where
  "ilike pattern txt = like (map lower pattern) (map lower txt)"

text \<open>
  \<^verbatim>\<open>getTasks\<close>. The query string gives the filters and the parsed page and limit. A
  teacher or an admin is scoped by \<^verbatim>\<open>created_by\<close>, every other role by \<^verbatim>\<open>assignee_id\<close>.
  The answer holds the page of rows, newest first, and the exact count of the rows the
  filters match. A negative offset or limit is an error of the store.
\<close>

record task_query =
  q_status :: "string option"
  q_priority :: "string option"
  q_search :: "string option"
  q_class_id :: "nat option"
  q_page :: int
  q_limit :: int

record task_page =
  pg_tasks :: "task_row list"
  pg_total :: nat

definition wanted :: "string option \<Rightarrow> bool" where
  "wanted f = (case f of None \<Rightarrow> False | Some x \<Rightarrow> x \<noteq> [] \<and> x \<noteq> ''all'')"

definition getTasks_rows :: "store \<Rightarrow> actor \<Rightarrow> task_query \<Rightarrow> task_row list" where
  "getTasks_rows s u q =
     (let scoped = (if a_role u = Teacher \<or> a_role u = Admin
                    then [t \<leftarrow> tasks s. created_by t = a_id u]
                    else [t \<leftarrow> tasks s. assignee_id t = Some (a_id u)]);
          by_class = (case q_class_id q of None \<Rightarrow> scoped
                      | Some c \<Rightarrow> [t \<leftarrow> scoped. class_id t = Some c]);
          by_status = (if wanted (q_status q) then [t \<leftarrow> by_class. status t = q_status q]
                       else by_class);
          by_priority = (if wanted (q_priority q)
                         then [t \<leftarrow> by_status. priority t = q_priority q] else by_status);
          by_search = (case q_search q of None \<Rightarrow> by_priority
                       | Some x \<Rightarrow> (if x = [] then by_priority
                           else [t \<leftarrow> by_priority. ilike (''%'' @ x @ ''%'') (title t)]))
      in rev by_search)"

definition getTasks :: "store \<Rightarrow> actor \<Rightarrow> task_query \<Rightarrow> task_page response" where
  "getTasks s u q =
     (let rows = getTasks_rows s u q;
          from_row = (q_page q - 1) * q_limit q
      in if from_row < 0 \<or> q_limit q < 0 then Failure 500 ''Failed to fetch tasks''
         else Success 200
                \<lparr>pg_tasks = take (nat (q_limit q)) (drop (nat from_row) rows),
                 pg_total = length rows\<rparr>)"

text \<open>\<^verbatim>\<open>getTask\<close>.\<close>

definition getTask :: "store \<Rightarrow> actor \<Rightarrow> nat \<Rightarrow> task_row response" where
  "getTask s u i =
     (case task_by_id s i of
        None \<Rightarrow> Failure 404 ''Task not found''
      | Some task \<Rightarrow>
          if a_role u = Student \<and> assignee_id task \<noteq> Some (a_id u)
          then Failure 403 ''Forbidden - you can only view tasks assigned to you''
          else if a_role u = Teacher \<and> created_by task \<noteq> a_id u
          then Failure 403 ''Forbidden - you can only view tasks you created''
          else Success 200 task)"

text \<open>
  The partial update of one task by id, \<^verbatim>\<open>.update(updateData).eq("id", id).select().single()\<close>:
  the columns named in \<^verbatim>\<open>updateData\<close> are set, the store checks the constraints of the
  new row, and the row comes back. A NULL title breaks \<^verbatim>\<open>NOT NULL\<close>.
\<close>

record task_update =
  new_title :: "string jsv"
  new_description :: "string jsv"
  new_due_date :: "nat jsv"
  new_priority :: "string jsv"
  new_status :: "string jsv"
  new_assignee_id :: "nat jsv"
  new_class_id :: "nat jsv"

definition no_update :: task_update where
  "no_update =
     \<lparr>new_title = Undefined, new_description = Undefined, new_due_date = Undefined,
      new_priority = Undefined, new_status = Undefined, new_assignee_id = Undefined,
      new_class_id = Undefined\<rparr>"

definition apply_update :: "task_update \<Rightarrow> task_row \<Rightarrow> task_row" where
  "apply_update d t =
     t\<lparr>title := (case new_title d of Val x \<Rightarrow> x | _ \<Rightarrow> title t),
       description := set_column (new_description d) (description t),
       due_date := set_column (new_due_date d) (due_date t),
       priority := set_column (new_priority d) (priority t),
       status := set_column (new_status d) (status t),
       assignee_id := set_column (new_assignee_id d) (assignee_id t),
       class_id := set_column (new_class_id d) (class_id t)\<rparr>"

definition update_task :: "store \<Rightarrow> nat \<Rightarrow> task_update \<Rightarrow> (task_row \<times> store) option" where
  "update_task s i d =
     (case task_by_id s i of
        None \<Rightarrow> None
      | Some t \<Rightarrow>
          if new_title d = Null \<or> \<not> task_row_ok s (apply_update d t) then None
          else Some (apply_update d t,
                     s\<lparr>tasks := map (\<lambda>x. if t_id x = i then apply_update d t else x) (tasks s)\<rparr>))"

text \<open>
  \<^verbatim>\<open>updateTask\<close>. A student may touch only a task assigned to them, and the handler
  then reads \<^verbatim>\<open>status\<close> from the body and nothing else. A teacher or an admin sends every
  field of the body that is not \<^verbatim>\<open>undefined\<close>.
\<close>

definition student_name :: "store \<Rightarrow> nat \<Rightarrow> string" where
  "student_name s i =
     (case user_by_id s i of None \<Rightarrow> ''A student''
      | Some x \<Rightarrow> (if u_name x = [] then ''A student'' else u_name x))"

definition updateData :: "task_payload \<Rightarrow> task_update" where
  "updateData p =
     \<lparr>new_title = p_title p, new_description = p_description p, new_due_date = p_due_date p,
      new_priority = p_priority p, new_status = p_status p,
      new_assignee_id = p_assignee_id p, new_class_id = p_class_id p\<rparr>"

definition updateTask :: "store \<Rightarrow> actor \<Rightarrow> nat \<Rightarrow> task_payload \<Rightarrow> task_row response \<times> store" where
  "updateTask s u i p =
     (case task_by_id s i of
        None \<Rightarrow> (Failure 404 ''Task not found'', s)
      | Some existingTask \<Rightarrow>
          if a_role u = Student then
            (if assignee_id existingTask \<noteq> Some (a_id u)
             then (Failure 403 ''Forbidden - you can only update tasks assigned to you'', s)
             else if \<not> truthy (p_status p)
             then (Failure 400 ''Students can only update task status'', s)
             else
               (case update_task s i (no_update\<lparr>new_status := p_status p\<rparr>) of
                  None \<Rightarrow> (Failure 500 ''Failed to update task'', s)
                | Some (task, s1) \<Rightarrow>
                    (Success 200 task,
                     if p_status p = Val ''completed''
                     then createNotification s1 (created_by existingTask) ''task_completed''
                            ''Task Completed''
                            (student_name s1 (a_id u) @ '' completed the task: ''
                               @ quoted (title task))
                            (Some (t_id task)) None
                     else s1)))
          else if created_by existingTask \<noteq> a_id u \<and> a_role u \<noteq> Admin
          then (Failure 403 ''Forbidden - you can only edit tasks you created'', s)
          else if updateData p = no_update then (Failure 400 ''No fields to update'', s)
          else
            (case update_task s i (updateData p) of
               None \<Rightarrow> (Failure 500 ''Failed to update task'', s)
             | Some (task, s1) \<Rightarrow> (Success 200 task, s1)))"

text \<open>
  \<^verbatim>\<open>deleteTask\<close>. Deleting the row cascades to the notifications that reference it
  (\<^verbatim>\<open>task_id ... ON DELETE CASCADE\<close>).
\<close>

definition deleteTask :: "store \<Rightarrow> actor \<Rightarrow> nat \<Rightarrow> unit response \<times> store" where
  "deleteTask s u i =
     (case task_by_id s i of
        None \<Rightarrow> (Failure 404 ''Task not found'', s)
      | Some existingTask \<Rightarrow>
          if created_by existingTask \<noteq> a_id u \<and> a_role u \<noteq> Admin
          then (Failure 403 ''Forbidden - you can only delete tasks you created'', s)
          else (Success 200 (),
                s\<lparr>tasks := [t \<leftarrow> tasks s. t_id t \<noteq> i],
                  notifications := [n \<leftarrow> notifications s. n_task_id n \<noteq> Some i]\<rparr>))"

section \<open>Class handlers\<close>

definition members_of :: "store \<Rightarrow> nat \<Rightarrow> member_row list" where
  "members_of s i = [m \<leftarrow> class_members s. m_class_id m = i]"

definition membership :: "store \<Rightarrow> nat \<Rightarrow> nat \<Rightarrow> member_row option" where
  "membership s i uid = maybeSingle [m \<leftarrow> class_members s. m_class_id m = i \<and> m_user_id m = uid]"

text \<open>
  \<^verbatim>\<open>getClass\<close>: the class with its membership rows, oldest first. A teacher must own the
  class; a student must have a membership row.
\<close>

definition getClass :: "store \<Rightarrow> actor \<Rightarrow> nat \<Rightarrow> (class_row \<times> member_row list) response" where
  "getClass s u i =
     (case class_by_id s i of
        None \<Rightarrow> Failure 404 ''Class not found''
      | Some cls \<Rightarrow>
          if a_role u = Teacher \<and> teacher_id cls \<noteq> a_id u then Failure 403 ''Forbidden''
          else if a_role u = Student \<and> membership s i (a_id u) = None
          then Failure 403 ''Forbidden - you are not a member of this class''
          else Success 200 (cls, members_of s i))"

text \<open>
  \<^verbatim>\<open>getClassMembers\<close>: the users joined to the membership rows of the class, oldest
  first (\<^verbatim>\<open>members.map((m) => m.user)\<close>). The handler reads neither the actor nor the
  class.
\<close>

definition getClassMembers :: "store \<Rightarrow> actor \<Rightarrow> nat \<Rightarrow> user_row option list response" where
  "getClassMembers s u i = Success 200 (map (\<lambda>m. user_by_id s (m_user_id m)) (members_of s i))"

text \<open>
  \<^verbatim>\<open>deleteClass\<close>. The handler first clears \<^verbatim>\<open>class_id\<close> on the tasks of the class and
  does not look at the outcome, then deletes the class. The delete cascades in the store:
  membership rows and notifications of the class go (\<^verbatim>\<open>ON DELETE CASCADE\<close>), and
  \<^verbatim>\<open>tasks.class_id\<close> is set to NULL (\<^verbatim>\<open>ON DELETE SET NULL\<close>).
\<close>

definition detach :: "nat \<Rightarrow> task_row \<Rightarrow> task_row" where
  "detach i t = (if class_id t = Some i then t\<lparr>class_id := None\<rparr> else t)"

definition clear_class_id :: "store \<Rightarrow> nat \<Rightarrow> store" where
  "clear_class_id s i =
     (if list_all (task_row_ok s) (map (detach i) [t \<leftarrow> tasks s. class_id t = Some i])
      then s\<lparr>tasks := map (detach i) (tasks s)\<rparr> else s)"

definition delete_class :: "store \<Rightarrow> nat \<Rightarrow> store" where
  "delete_class s i =
     s\<lparr>classes := [c \<leftarrow> classes s. c_id c \<noteq> i],
       class_members := [m \<leftarrow> class_members s. m_class_id m \<noteq> i],
       notifications := [n \<leftarrow> notifications s. n_class_id n \<noteq> Some i],
       tasks := map (detach i) (tasks s)\<rparr>"

definition deleteClass :: "store \<Rightarrow> actor \<Rightarrow> nat \<Rightarrow> unit response \<times> store" where
  "deleteClass s u i =
     (case class_by_id s i of
        None \<Rightarrow> (Failure 404 ''Class not found'', s)
      | Some cls \<Rightarrow>
          if teacher_id cls \<noteq> a_id u \<and> a_role u \<noteq> Admin then (Failure 403 ''Forbidden'', s)
          else (Success 200 (), delete_class (clear_class_id s i) i))"

text \<open>
  \<^verbatim>\<open>joinClass\<close>. The handler tests the field \<^verbatim>\<open>invite_code\<close> of the body for truth and
  then calls \<^verbatim>\<open>invite_code.trim()\<close>, so the field is any value a JSON body can hold. A
  JavaScript string is the list of its UTF-16 code units, and so is an invite code in the
  store. A number is a whole number here: the handler only tests it against zero.
\<close>

datatype js_value =
    Js_undefined
  | Js_null
  | Js_bool bool
  | Js_num int
  | Js_str "nat list"
  | Js_array "js_value list"
  | Js_object "(string \<times> js_value) list"

definition js_truthy :: "js_value \<Rightarrow> bool" where
  "js_truthy v =
     (case v of
        Js_undefined \<Rightarrow> False
      | Js_null \<Rightarrow> False
      | Js_bool b \<Rightarrow> b
      | Js_num n \<Rightarrow> n \<noteq> 0
      | Js_str x \<Rightarrow> x \<noteq> []
      | Js_array xs \<Rightarrow> True
      | Js_object fs \<Rightarrow> True)"

text \<open>
  \<^verbatim>\<open>String.prototype.trim\<close> strips the white space and line terminators of ECMAScript at
  both ends: tab, line feed, vertical tab, form feed, carriage return, space, U+00A0,
  U+1680, U+2000 to U+200A, U+2028, U+2029, U+202F, U+205F, U+3000 and U+FEFF.
\<close>

definition white_space :: "nat \<Rightarrow> bool" where
  "white_space c =
     (c \<in> {9, 10, 11, 12, 13, 32, 160, 5760, 8232, 8233, 8239, 8287, 12288, 65279}
      \<or> (8192 \<le> c \<and> c \<le> 8202))"

definition js_trim :: "nat list \<Rightarrow> nat list" where
  "js_trim x = rev (dropWhile white_space (rev (dropWhile white_space x)))"

text \<open>
  The filter value travels in the query string of the request to the store, which holds
  scalar values only: a surrogate code unit that is not part of a pair (U+D800 to U+DBFF
  followed by U+DC00 to U+DFFF) is replaced by U+FFFD.
\<close>

definition high_surrogate :: "nat \<Rightarrow> bool" where
  "high_surrogate c = (55296 \<le> c \<and> c \<le> 56319)"

definition low_surrogate :: "nat \<Rightarrow> bool" where
  "low_surrogate c = (56320 \<le> c \<and> c \<le> 57343)"

fun scalar_values :: "nat list \<Rightarrow> nat list" where
  "scalar_values [] = []"
| "scalar_values [c] = (if high_surrogate c \<or> low_surrogate c then [65533] else [c])"
| "scalar_values (c # d # cs) =
     (if high_surrogate c \<and> low_surrogate d then c # d # scalar_values cs
      else if high_surrogate c \<or> low_surrogate c then 65533 # scalar_values (d # cs)
      else c # scalar_values (d # cs))"

text \<open>
  The class is looked up by the trimmed code with \<^verbatim>\<open>.single()\<close>. A value that is true
  and no string has no \<^verbatim>\<open>trim\<close>: the call throws and the handler's \<^verbatim>\<open>catch\<close> answers
  500, as it does when the store refuses the insert.
\<close>

definition class_by_code :: "store \<Rightarrow> nat list \<Rightarrow> class_row option" where
  "class_by_code s x = single [c \<leftarrow> classes s. invite_code c = scalar_values (js_trim x)]"

definition joinClass :: "store \<Rightarrow> actor \<Rightarrow> js_value \<Rightarrow> class_row response \<times> store" where
  "joinClass s u code =
     (if \<not> js_truthy code then (Failure 400 ''Invite code is required'', s)
      else
        (case code of
           Js_str x \<Rightarrow>
             (case class_by_code s x of
                None \<Rightarrow> (Failure 404 ''Invalid invite code'', s)
              | Some cls \<Rightarrow>
                  if teacher_id cls = a_id u
                  then (Failure 400 ''You are the teacher of this class'', s)
                  else if membership s (c_id cls) (a_id u) \<noteq> None
                  then (Failure 400 ''You are already a member of this class'', s)
                  else
                    (let m = \<lparr>m_id = next_id s, m_class_id = c_id cls, m_user_id = a_id u\<rparr>
                     in if member_row_ok s m
                        then (Success 200 cls,
                              s\<lparr>class_members := class_members s @ [m],
                                next_id := Suc (next_id s)\<rparr>)
                        else (Failure 500 ''Internal server error'', s)))
         | _ \<Rightarrow> (Failure 500 ''Internal server error'', s)))"

section \<open>A small school\<close>

text \<open>
  The store the examples run on: teachers 1 and 2, students 3 and 5, admin 4; class 10 of
  teacher 1, with the invite code "a1b2c3d4" in code units and student 3 as its only
  member; task 30, created by teacher 1 in class 10,
  assigned to student 3, due on day 100.
\<close>

definition school_users :: "user_row list" where
  "school_users =
     [\<lparr>u_id = 1, u_name = ''Tina'', u_role = Teacher\<rparr>,
      \<lparr>u_id = 2, u_name = ''Tom'', u_role = Teacher\<rparr>,
      \<lparr>u_id = 3, u_name = ''Sam'', u_role = Student\<rparr>,
      \<lparr>u_id = 4, u_name = ''Ada'', u_role = Admin\<rparr>,
      \<lparr>u_id = 5, u_name = ''Sue'', u_role = Student\<rparr>]"

definition a1b2c3d4 :: "nat list" where
  "a1b2c3d4 = [97, 49, 98, 50, 99, 51, 100, 52]"

definition maths :: class_row where
  "maths = \<lparr>c_id = 10, c_name = ''Maths'', c_description = None,
            invite_code = a1b2c3d4, teacher_id = 1\<rparr>"

definition essay :: task_row where
  "essay = \<lparr>t_id = 30, title = ''Essay'', description = None, due_date = Some 100,
            priority = Some ''medium'', status = Some ''todo'', created_by = 1,
            assignee_id = Some 3, class_id = Some 10\<rparr>"

definition school :: store where
  "school = \<lparr>users = school_users, classes = [maths],
             class_members = [\<lparr>m_id = 20, m_class_id = 10, m_user_id = 3\<rparr>],
             tasks = [essay], notifications = [], next_id = 40\<rparr>"

definition tina :: actor where "tina = \<lparr>a_id = 1, a_role = Teacher\<rparr>"
definition tom :: actor where "tom = \<lparr>a_id = 2, a_role = Teacher\<rparr>"
definition sam :: actor where "sam = \<lparr>a_id = 3, a_role = Student\<rparr>"
definition ada :: actor where "ada = \<lparr>a_id = 4, a_role = Admin\<rparr>"
definition sue :: actor where "sue = \<lparr>a_id = 5, a_role = Student\<rparr>"

definition first_page :: task_query where
  "first_page = \<lparr>q_status = None, q_priority = None, q_search = None, q_class_id = None,
                 q_page = 1, q_limit = 10\<rparr>"

definition empty_payload :: task_payload where
  "empty_payload =
     \<lparr>p_title = Undefined, p_description = Undefined, p_due_date = Undefined,
      p_priority = Undefined, p_status = Undefined, p_created_by = Undefined,
      p_assignee_id = Undefined, p_class_id = Undefined\<rparr>"

text \<open>The same school with three tasks, two of them in class 10.\<close>

definition school3 :: store where
  "school3 = school\<lparr>tasks := [essay, essay\<lparr>t_id := 31, title := ''Lab''\<rparr>,
                               essay\<lparr>t_id := 32, title := ''Walk'', class_id := None\<rparr>]\<rparr>"

text \<open>The school after student 5 has joined class 10.\<close>

definition school_with_sue :: store where
  "school_with_sue =
     school\<lparr>class_members := [\<lparr>m_id = 20, m_class_id = 10, m_user_id = 3\<rparr>,
                               \<lparr>m_id = 40, m_class_id = 10, m_user_id = 5\<rparr>],
            next_id := 41\<rparr>"

text \<open>
  The school with task 30 in progress, the school with task 30 completed, and the
  notification teacher 1 gets when student 3 completes task 30.
\<close>

definition busy_school :: store where
  "busy_school = school\<lparr>tasks := [essay\<lparr>status := Some ''in-progress''\<rparr>]\<rparr>"

definition done_school :: store where
  "done_school = school\<lparr>tasks := [essay\<lparr>status := Some ''completed''\<rparr>]\<rparr>"

definition completed_note :: notification_row where
  "completed_note =
     \<lparr>n_id = 40, n_user_id = 1, n_type = ''task_completed'', n_title = ''Task Completed'',
      n_message = ''Sam completed the task: '' @ quoted ''Essay'', n_task_id = Some 30,
      n_class_id = None, is_read = False\<rparr>"

text \<open>
  The notification the scan inserts for a task; the one for task 30 with a given id; the
  school with given notifications and id counter.
\<close>

definition overdue_note :: "store \<Rightarrow> task_row \<Rightarrow> notification_row" where
  "overdue_note s t =
     \<lparr>n_id = next_id s, n_user_id = created_by t, n_type = ''task_overdue'',
      n_title = ''Task Overdue'', n_message = overdue_message t, n_task_id = Some (t_id t),
      n_class_id = None, is_read = False\<rparr>"

definition late_note :: "nat \<Rightarrow> notification_row" where
  "late_note i =
     \<lparr>n_id = i, n_user_id = 1, n_type = ''task_overdue'', n_title = ''Task Overdue'',
      n_message = overdue_message essay, n_task_id = Some 30, n_class_id = None,
      is_read = False\<rparr>"

definition late_school :: "notification_row list \<Rightarrow> nat \<Rightarrow> store" where
  "late_school ns k = school\<lparr>notifications := ns, next_id := k\<rparr>"

section \<open>Evaluation rules\<close>

lemmas school_defs = school_def school_users_def maths_def essay_def tina_def tom_def
  sam_def ada_def sue_def empty_payload_def first_page_def

lemmas store_defs = single_def maybeSingle_def user_ids_def class_ids_def task_ids_def
  references_def task_by_id_def class_by_id_def user_by_id_def

section \<open>Creating a task\<close>

lemma createTask_Success:
  assumes "createTask s u p = (Success c task, s')"
  shows "task = taskData s u p \<and> c = 201 \<and> tasks s' = tasks s @ [task] \<and> task_row_ok s task"
proof -
  from assms have ok: "task_row_ok s (taskData s u p)"
    by (auto simp: createTask_def split: if_splits)
  from assms have t: "task = taskData s u p" "c = 201"
    by (auto simp: createTask_def Let_def split: if_splits)
  from assms have "tasks s' = tasks s @ [taskData s u p]"
    by (auto simp: createTask_def Let_def createNotification_def split: if_splits option.splits)
  with ok t show ?thesis by simp
qed

text \<open>
  Claim C7. When \<^verbatim>\<open>class_id\<close> is set in the body of \<^verbatim>\<open>createTask\<close>: a class that does
  not exist makes the call fail with a validation error (status 400) and leaves the store
  as it was; so does a class whose \<^verbatim>\<open>teacher_id\<close> is not the actor's id when the actor is
  no admin, and the message then is "You don't own this class" whenever the title check
  before it passed. An admin is exempt: with the class found, the title given, the
  assignee (if any) found and the row accepted by the store, the task is created whoever
  teaches the class.
\<close>

theorem createTask_class_check:
  assumes "p_class_id p = Val c"
  shows "(class_by_id s c = None \<longrightarrow>
            fails_with (fst (createTask s u p)) ValidationError \<and> snd (createTask s u p) = s)
       \<and> (\<forall>cls. class_by_id s c = Some cls \<and> a_role u \<noteq> Admin \<and> teacher_id cls \<noteq> a_id u \<longrightarrow>
            fails_with (fst (createTask s u p)) ValidationError \<and> snd (createTask s u p) = s
            \<and> (truthy (p_title p) \<longrightarrow>
                 fst (createTask s u p) = Failure 400 ''You don't own this class''))
       \<and> (\<forall>cls. class_by_id s c = Some cls \<and> a_role u = Admin \<and> truthy (p_title p)
              \<and> (\<forall>a. p_assignee_id p = Val a \<longrightarrow> user_by_id s a \<noteq> None)
              \<and> task_row_ok s (taskData s u p) \<longrightarrow>
            fst (createTask s u p) = Success 201 (taskData s u p))"
proof (intro conjI allI impI)
  assume "class_by_id s c = None"
  with assms show "fails_with (fst (createTask s u p)) ValidationError"
    by (simp add: createTask_def fails_with_def error_of_status_def present_def ref_or_null_def)
  from assms \<open>class_by_id s c = None\<close> show "snd (createTask s u p) = s"
    by (simp add: createTask_def present_def ref_or_null_def)
next
  fix cls assume h: "class_by_id s c = Some cls \<and> a_role u \<noteq> Admin \<and> teacher_id cls \<noteq> a_id u"
  with assms show "fails_with (fst (createTask s u p)) ValidationError"
    by (simp add: createTask_def fails_with_def error_of_status_def present_def ref_or_null_def)
  from assms h show "snd (createTask s u p) = s"
    by (simp add: createTask_def present_def ref_or_null_def)
  assume "truthy (p_title p)"
  with assms h show "fst (createTask s u p) = Failure 400 ''You don't own this class''"
    by (simp add: createTask_def present_def ref_or_null_def)
next
  fix cls
  assume h: "class_by_id s c = Some cls \<and> a_role u = Admin \<and> truthy (p_title p)
              \<and> (\<forall>a. p_assignee_id p = Val a \<longrightarrow> user_by_id s a \<noteq> None)
              \<and> task_row_ok s (taskData s u p)"
  with assms show "fst (createTask s u p) = Success 201 (taskData s u p)"
    by (cases "p_assignee_id p")
       (simp_all add: createTask_def present_def ref_or_null_def Let_def)
qed

text \<open>
  In the school: teacher 1 names a class 99 that does not exist; teacher 2 names class 10
  of teacher 1; the admin names class 10.
\<close>

theorem createTask_class_check_witness:
  "fails_with (fst (createTask school tina
       (empty_payload\<lparr>p_title := Val ''Quiz'', p_class_id := Val 99\<rparr>))) ValidationError
   \<and> fst (createTask school tom (empty_payload\<lparr>p_title := Val ''Quiz'', p_class_id := Val 10\<rparr>))
       = Failure 400 ''You don't own this class''
   \<and> fst (createTask school ada (empty_payload\<lparr>p_title := Val ''Quiz'', p_class_id := Val 10\<rparr>))
       = Success 201 \<lparr>t_id = 40, title = ''Quiz'', description = None, due_date = None,
           priority = Some ''medium'', status = Some ''todo'', created_by = 4,
           assignee_id = None, class_id = Some 10\<rparr>"
proof -
  let ?p = "empty_payload\<lparr>p_title := Val ''Quiz'', p_class_id := Val 10\<rparr>"
  let ?q = "empty_payload\<lparr>p_title := Val ''Quiz'', p_class_id := Val 99\<rparr>"
  have c10: "class_by_id school 10 = Some maths" and c99: "class_by_id school 99 = None"
    by (simp_all add: school_defs store_defs)
  have p: "p_class_id ?p = Val 10" and q: "p_class_id ?q = Val 99"
    by (simp_all add: empty_payload_def)
  have t: "truthy (p_title ?p)" "\<forall>a. p_assignee_id ?p = Val a \<longrightarrow> user_by_id school a \<noteq> None"
    by (simp_all add: empty_payload_def truthy_def)
  have d: "taskData school ada ?p = \<lparr>t_id = 40, title = ''Quiz'', description = None,
      due_date = None, priority = Some ''medium'', status = Some ''todo'', created_by = 4,
      assignee_id = None, class_id = Some 10\<rparr>"
    by (simp add: taskData_def school_defs or_null_def ref_or_null_def text_of_def)
  have ok: "task_row_ok school (taskData school ada ?p)"
    unfolding d by (simp add: task_row_ok_def school_defs store_defs)
  have tom: "a_role tom \<noteq> Admin \<and> teacher_id maths \<noteq> a_id tom" and ada: "a_role ada = Admin"
    by (simp_all add: school_defs)
  from createTask_class_check [OF q, of school tina] c99
       createTask_class_check [OF p, of school tom] c10 tom t
       createTask_class_check [OF p, of school ada] ada ok d
  show ?thesis by simp
qed

text \<open>
  Claim C8. Whenever \<^verbatim>\<open>createTask\<close> succeeds, whatever the body holds (a \<^verbatim>\<open>status\<close> or
  a \<^verbatim>\<open>created_by\<close> of its own included), the row it answers with is the one row added
  to the table, its status is \<^verbatim>\<open>todo\<close> and its \<^verbatim>\<open>created_by\<close> is the actor's id.
\<close>

theorem createTask_server_fields:
  assumes "createTask s u p = (Success c task, s')"
  shows "status task = Some ''todo'' \<and> created_by task = a_id u \<and> tasks s' = tasks s @ [task]"
  using createTask_Success [OF assms] by (simp add: taskData_def)

text \<open>Teacher 1 sends a body that asks for status \<^verbatim>\<open>completed\<close> and creator 2.\<close>

theorem createTask_server_fields_witness:
  "\<exists>task s'. createTask school tina
       (empty_payload\<lparr>p_title := Val ''Quiz'', p_status := Val ''completed'',
                       p_created_by := Val 2\<rparr>) = (Success 201 task, s')
     \<and> status task = Some ''todo'' \<and> created_by task = 1
     \<and> tasks s' = [essay, task]"
proof -
  let ?p = "empty_payload\<lparr>p_title := Val ''Quiz'', p_status := Val ''completed'',
                       p_created_by := Val 2\<rparr>"
  let ?task = "taskData school tina ?p"
  let ?s' = "school\<lparr>tasks := tasks school @ [?task], next_id := Suc (next_id school)\<rparr>"
  have ok: "task_row_ok school ?task"
    by (simp add: task_row_ok_def taskData_def school_defs store_defs or_null_def
        ref_or_null_def text_of_def)
  have run: "createTask school tina ?p = (Success 201 ?task, ?s')"
    using ok
    by (simp add: createTask_def Let_def truthy_def present_def)
       (simp add: taskData_def ref_or_null_def school_defs)
  from createTask_server_fields [OF run] run show ?thesis
    by (simp add: school_defs)
qed

section \<open>Deleting a class\<close>

lemma detach_detach: "detach i (detach i t) = detach i t"
  by (simp add: detach_def)

lemma tasks_clear_class_id:
  "map (detach i) (tasks (clear_class_id s i)) = map (detach i) (tasks s)"
  by (simp add: clear_class_id_def detach_detach)

text \<open>
  Claim C9. After a successful \<^verbatim>\<open>deleteClass\<close> of class \<open>i\<close> the task table is the old
  one, row by row, with \<^verbatim>\<open>class_id\<close> set to NULL on the rows that referenced the class and
  nothing else changed: no task is deleted, every task of the class is still there with
  its other columns as before. No membership row of the class remains and the class row
  is gone.
\<close>

theorem deleteClass_detaches_tasks:
  assumes "deleteClass s u i = (Success c (), s')"
  shows "tasks s' = map (\<lambda>t. if class_id t = Some i then t\<lparr>class_id := None\<rparr> else t) (tasks s)
       \<and> length (tasks s') = length (tasks s)
       \<and> (\<forall>t \<in> set (tasks s). class_id t = Some i \<longrightarrow> t\<lparr>class_id := None\<rparr> \<in> set (tasks s'))
       \<and> [m \<leftarrow> class_members s'. m_class_id m = i] = []
       \<and> [x \<leftarrow> classes s'. c_id x = i] = []"
proof -
  from assms have s': "s' = delete_class (clear_class_id s i) i"
    by (auto simp: deleteClass_def split: option.splits if_splits)
  have t: "tasks s' = map (detach i) (tasks s)"
    unfolding s' by (simp add: delete_class_def tasks_clear_class_id)
  have d: "detach i = (\<lambda>t. if class_id t = Some i then t\<lparr>class_id := None\<rparr> else t)"
    by (rule ext) (simp add: detach_def)
  have m: "[m \<leftarrow> class_members s'. m_class_id m = i] = []"
    unfolding s' by (simp add: delete_class_def filter_empty_conv)
  have k: "[x \<leftarrow> classes s'. c_id x = i] = []"
    unfolding s' by (simp add: delete_class_def filter_empty_conv)
  have e: "\<forall>t \<in> set (tasks s). class_id t = Some i \<longrightarrow> t\<lparr>class_id := None\<rparr> \<in> set (tasks s')"
    unfolding t d by force
  from t d m k e show ?thesis by simp
qed

text \<open>Teacher 1 deletes class 10 while two of the three tasks reference it.\<close>

theorem deleteClass_detaches_tasks_witness:
  "\<exists>s'. deleteClass school3 tina 10 = (Success 200 (), s')
     \<and> tasks s' = [essay\<lparr>class_id := None\<rparr>, essay\<lparr>t_id := 31, title := ''Lab'', class_id := None\<rparr>,
                   essay\<lparr>t_id := 32, title := ''Walk'', class_id := None\<rparr>]
     \<and> class_members s' = [] \<and> classes s' = []"
proof -
  let ?s' = "delete_class (clear_class_id school3 10) 10"
  have run: "deleteClass school3 tina 10 = (Success 200 (), ?s')"
    by (simp add: deleteClass_def school3_def school_defs store_defs)
  have m: "class_members ?s' = [] \<and> classes ?s' = []"
    by (simp add: delete_class_def clear_class_id_def school3_def school_defs)
  from deleteClass_detaches_tasks [OF run] run m show ?thesis
    by (simp add: school3_def school_defs)
qed

section \<open>Joining a class\<close>

lemma single_Some: "single rows = Some r \<longleftrightarrow> rows = [r]"
  by (simp add: single_def split: list.splits)

lemma maybeSingle_Some: "maybeSingle rows = Some r \<longleftrightarrow> rows = [r]"
  by (simp add: maybeSingle_def split: list.splits)

lemma filter_singleD:
  assumes "filter P xs = [r]"
  shows "r \<in> set xs \<and> P r"
proof -
  have "r \<in> set (filter P xs)" by (simp add: assms)
  then show ?thesis by simp
qed

lemma sam_member: "membership school 10 3 = Some \<lparr>m_id = 20, m_class_id = 10, m_user_id = 3\<rparr>"
  by (simp add: membership_def school_defs store_defs)

lemma code_plain: "scalar_values (js_trim a1b2c3d4) = a1b2c3d4"
  by (simp add: a1b2c3d4_def js_trim_def white_space_def high_surrogate_def low_surrogate_def)

lemma code_padded:
  "scalar_values (js_trim ([160, 32] @ a1b2c3d4 @ [8232, 65279])) = a1b2c3d4"
  by (simp add: a1b2c3d4_def js_trim_def white_space_def high_surrogate_def low_surrogate_def)

lemma code_wrong: "scalar_values (js_trim [122, 122, 122]) = [122, 122, 122]"
  by (simp add: js_trim_def white_space_def high_surrogate_def low_surrogate_def)

lemma maths_by_code:
  "single [c \<leftarrow> classes school. invite_code c = a1b2c3d4] = Some maths"
  "single [c \<leftarrow> classes school_with_sue. invite_code c = a1b2c3d4] = Some maths"
  "single [c \<leftarrow> classes school. invite_code c = [122, 122, 122]] = None"
  by (simp_all add: school_with_sue_def school_defs store_defs a1b2c3d4_def)

lemma join_sam: "joinClass school sam (Js_str a1b2c3d4)
     = (Failure 400 ''You are already a member of this class'', school)"
proof -
  have "a1b2c3d4 \<noteq> []" by (simp add: a1b2c3d4_def)
  then show ?thesis
    by (simp add: joinClass_def js_truthy_def class_by_code_def code_plain maths_by_code)
       (simp add: maths_def sam_def sam_member)
qed

lemma join_tina: "joinClass school tina (Js_str a1b2c3d4)
     = (Failure 400 ''You are the teacher of this class'', school)"
proof -
  have "a1b2c3d4 \<noteq> []" by (simp add: a1b2c3d4_def)
  then show ?thesis
    by (simp add: joinClass_def js_truthy_def class_by_code_def code_plain maths_by_code)
       (simp add: maths_def tina_def)
qed

text \<open>
  Claim C6, as stated, fails on the code: a student who is already a member of the class
  is answered with status 400, the status of a validation error and of the answer to the
  class's own teacher, and not with a conflict (409), which no handler ever sends.
\<close>

theorem joinClass_member_counterexample:
  "fst (joinClass school sam (Js_str a1b2c3d4))
     = Failure 400 ''You are already a member of this class''
   \<and> membership school 10 (a_id sam) = Some \<lparr>m_id = 20, m_class_id = 10, m_user_id = 3\<rparr>
   \<and> \<not> fails_with (fst (joinClass school sam (Js_str a1b2c3d4))) ConflictError
   \<and> fails_with (fst (joinClass school sam (Js_str a1b2c3d4))) ValidationError
   \<and> fails_with (fst (joinClass school tina (Js_str a1b2c3d4))) ValidationError"
proof -
  have "a_id sam = 3" by (simp add: sam_def)
  then show ?thesis
    by (simp add: join_sam join_tina sam_member fails_with_def error_of_status_def)
qed

text \<open>
  Claim C6, amended. \<^verbatim>\<open>joinClass\<close> answers 400 when the invite code is missing or any
  other false value (null, false, 0, the empty string); 500 when it is a true value that
  is no string; otherwise 404 when no class (or more than one) has the trimmed code;
  otherwise 400 "You are the teacher of this class" when the actor teaches the class;
  otherwise 400 "You are already a member of this class", a validation error like the one
  before, when the actor has a membership row; and when the actor is a user with no
  membership row of the class it adds exactly one row for (class, actor) and answers with
  the class. Every failure leaves the store as it was.
\<close>

theorem joinClass_outcomes:
  "(\<not> js_truthy code \<longrightarrow> joinClass s u code = (Failure 400 ''Invite code is required'', s))
   \<and> (js_truthy code \<and> (\<forall>x. code \<noteq> Js_str x) \<longrightarrow>
        joinClass s u code = (Failure 500 ''Internal server error'', s))
   \<and> (\<forall>x. code = Js_str x \<and> x \<noteq> [] \<longrightarrow>
        (class_by_code s x = None \<longrightarrow>
           joinClass s u code = (Failure 404 ''Invalid invite code'', s))
        \<and> (\<forall>cls. class_by_code s x = Some cls \<longrightarrow>
             (teacher_id cls = a_id u \<longrightarrow>
                joinClass s u code = (Failure 400 ''You are the teacher of this class'', s))
             \<and> (teacher_id cls \<noteq> a_id u \<and> membership s (c_id cls) (a_id u) \<noteq> None \<longrightarrow>
                joinClass s u code
                  = (Failure 400 ''You are already a member of this class'', s)
                \<and> fails_with (fst (joinClass s u code)) ValidationError)
             \<and> (teacher_id cls \<noteq> a_id u \<and> a_id u \<in> set (user_ids s)
                  \<and> [m \<leftarrow> class_members s. m_class_id m = c_id cls \<and> m_user_id m = a_id u] = []
                \<longrightarrow>
                joinClass s u code =
                  (Success 200 cls,
                   s\<lparr>class_members := class_members s
                        @ [\<lparr>m_id = next_id s, m_class_id = c_id cls, m_user_id = a_id u\<rparr>],
                     next_id := Suc (next_id s)\<rparr>))))"
proof (intro conjI allI impI)
  assume "\<not> js_truthy code"
  then show "joinClass s u code = (Failure 400 ''Invite code is required'', s)"
    by (simp add: joinClass_def)
next
  assume "js_truthy code \<and> (\<forall>x. code \<noteq> Js_str x)"
  then show "joinClass s u code = (Failure 500 ''Internal server error'', s)"
    by (cases code) (simp_all add: joinClass_def)
next
  fix x
  assume c: "code = Js_str x \<and> x \<noteq> []"
  then have t: "js_truthy code" by (simp add: js_truthy_def)
  {
    assume "class_by_code s x = None"
    with c t show "joinClass s u code = (Failure 404 ''Invalid invite code'', s)"
      by (simp add: joinClass_def)
  next
    fix cls
    assume f: "class_by_code s x = Some cls"
    {
      assume "teacher_id cls = a_id u"
      with c t f show "joinClass s u code = (Failure 400 ''You are the teacher of this class'', s)"
        by (simp add: joinClass_def)
    next
      assume h: "teacher_id cls \<noteq> a_id u \<and> membership s (c_id cls) (a_id u) \<noteq> None"
      with c t f show r: "joinClass s u code
          = (Failure 400 ''You are already a member of this class'', s)"
        by (simp add: joinClass_def)
      show "fails_with (fst (joinClass s u code)) ValidationError"
        unfolding r by (simp add: fails_with_def error_of_status_def)
    next
      assume h: "teacher_id cls \<noteq> a_id u \<and> a_id u \<in> set (user_ids s)
                 \<and> [m \<leftarrow> class_members s. m_class_id m = c_id cls \<and> m_user_id m = a_id u] = []"
      from f have "[c \<leftarrow> classes s. invite_code c = scalar_values (js_trim x)] = [cls]"
        by (simp add: class_by_code_def single_Some)
      then have "cls \<in> set (classes s)" by (rule filter_singleD [THEN conjunct1])
      then have "c_id cls \<in> set (class_ids s)" by (simp add: class_ids_def)
      with h have ok: "member_row_ok s \<lparr>m_id = next_id s, m_class_id = c_id cls, m_user_id = a_id u\<rparr>"
        by (simp add: member_row_ok_def)
      from h have "membership s (c_id cls) (a_id u) = None"
        by (simp add: membership_def maybeSingle_def)
      with c t f h ok show "joinClass s u code =
               (Success 200 cls,
                s\<lparr>class_members := class_members s
                     @ [\<lparr>m_id = next_id s, m_class_id = c_id cls, m_user_id = a_id u\<rparr>],
                  next_id := Suc (next_id s)\<rparr>)"
        by (simp add: joinClass_def Let_def)
    }
  }
qed

text \<open>
  Student 5 joins class 10 with a code padded by U+00A0 and a space in front and U+2028
  and U+FEFF behind, and joins again; teacher 1 tries her own class; a wrong code, null,
  the number 0 and the number 12345678.
\<close>

theorem joinClass_outcomes_witness:
  "joinClass school sue (Js_str ([160, 32] @ a1b2c3d4 @ [8232, 65279]))
     = (Success 200 maths, school_with_sue)
   \<and> joinClass school_with_sue sue (Js_str ([160, 32] @ a1b2c3d4 @ [8232, 65279]))
       = (Failure 400 ''You are already a member of this class'', school_with_sue)
   \<and> joinClass school tina (Js_str a1b2c3d4)
       = (Failure 400 ''You are the teacher of this class'', school)
   \<and> joinClass school sue (Js_str [122, 122, 122]) = (Failure 404 ''Invalid invite code'', school)
   \<and> joinClass school sue Js_null = (Failure 400 ''Invite code is required'', school)
   \<and> joinClass school sue (Js_num 0) = (Failure 400 ''Invite code is required'', school)
   \<and> joinClass school sue (Js_num 12345678) = (Failure 500 ''Internal server error'', school)"
proof -
  let ?padded = "[160, 32] @ a1b2c3d4 @ [8232, 65279]"
  have ne: "?padded \<noteq> []" "a1b2c3d4 \<noteq> []" "[122, 122, 122] \<noteq> ([] :: nat list)"
    by (simp_all add: a1b2c3d4_def)
  have found: "class_by_code school ?padded = Some maths"
    and found': "class_by_code school_with_sue ?padded = Some maths"
    and found'': "class_by_code school a1b2c3d4 = Some maths"
    and lost: "class_by_code school [122, 122, 122] = None"
    by (simp_all only: class_by_code_def code_padded code_plain code_wrong maths_by_code)
  have t: "\<not> js_truthy Js_null" "\<not> js_truthy (Js_num 0)"
    "js_truthy (Js_num 12345678) \<and> (\<forall>x. Js_num 12345678 \<noteq> Js_str x)"
    by (simp_all add: js_truthy_def)
  have sue: "teacher_id maths \<noteq> a_id sue \<and> a_id sue \<in> set (user_ids school)
      \<and> [m \<leftarrow> class_members school. m_class_id m = c_id maths \<and> m_user_id m = a_id sue] = []"
    by (simp add: school_defs store_defs)
  have sue': "teacher_id maths \<noteq> a_id sue \<and> membership school_with_sue (c_id maths) (a_id sue) \<noteq> None"
    by (simp add: membership_def school_with_sue_def school_defs store_defs)
  have tina: "teacher_id maths = a_id tina"
    by (simp add: school_defs)
  have new: "school\<lparr>class_members := class_members school
                   @ [\<lparr>m_id = next_id school, m_class_id = c_id maths, m_user_id = a_id sue\<rparr>],
                next_id := Suc (next_id school)\<rparr> = school_with_sue"
    by (simp add: school_with_sue_def school_defs)
  from joinClass_outcomes [of "Js_str ?padded" school sue] ne sue found new
  have 1: "joinClass school sue (Js_str ?padded) = (Success 200 maths, school_with_sue)"
    by simp
  from joinClass_outcomes [of "Js_str ?padded" school_with_sue sue] ne sue' found'
  have 2: "joinClass school_with_sue sue (Js_str ?padded)
       = (Failure 400 ''You are already a member of this class'', school_with_sue)"
    by simp
  from joinClass_outcomes [of "Js_str a1b2c3d4" school tina] ne tina found''
  have 3: "joinClass school tina (Js_str a1b2c3d4)
       = (Failure 400 ''You are the teacher of this class'', school)"
    by simp
  from joinClass_outcomes [of "Js_str [122, 122, 122]" school sue] lost
  have 4: "joinClass school sue (Js_str [122, 122, 122]) = (Failure 404 ''Invalid invite code'', school)"
    by simp
  from joinClass_outcomes [of Js_null school sue] t
  have 5: "joinClass school sue Js_null = (Failure 400 ''Invite code is required'', school)"
    by simp
  from joinClass_outcomes [of "Js_num 0" school sue] t
  have 6: "joinClass school sue (Js_num 0) = (Failure 400 ''Invite code is required'', school)"
    by simp
  from joinClass_outcomes [of "Js_num 12345678" school sue] t
  have 7: "joinClass school sue (Js_num 12345678) = (Failure 500 ''Internal server error'', school)"
    by simp
  from 1 2 3 4 5 6 7 show ?thesis by simp
qed

section \<open>Updating a task\<close>

lemma apply_update_status:
  "apply_update (no_update\<lparr>new_status := Val st\<rparr>) t = t\<lparr>status := Some st\<rparr>"
  by (simp add: apply_update_def no_update_def set_column_def)

lemma update_task_status:
  assumes "task_by_id s i = Some t"
  shows "update_task s i (no_update\<lparr>new_status := Val st\<rparr>) =
     (if task_row_ok s (t\<lparr>status := Some st\<rparr>)
      then Some (t\<lparr>status := Some st\<rparr>,
                 s\<lparr>tasks := map (\<lambda>x. if t_id x = i then t\<lparr>status := Some st\<rparr> else x) (tasks s)\<rparr>)
      else None)"
  using assms by (simp add: update_task_def apply_update_status) (simp add: no_update_def)

lemma task_by_id_mem:
  assumes "task_by_id s i = Some t"
  shows "t \<in> set (tasks s) \<and> t_id t = i"
proof -
  from assms have "[x \<leftarrow> tasks s. t_id x = i] = [t]"
    by (simp add: task_by_id_def single_Some)
  then show ?thesis by (rule filter_singleD)
qed

text \<open>What the student branch of updateTask does on an assigned task.\<close>

lemma updateTask_student:
  assumes "a_role u = Student" "task_by_id s i = Some t" "assignee_id t = Some (a_id u)"
  shows "updateTask s u i p =
     (if \<not> truthy (p_status p) then (Failure 400 ''Students can only update task status'', s)
      else if \<not> task_row_ok s (t\<lparr>status := Some (text_of (p_status p))\<rparr>)
      then (Failure 500 ''Failed to update task'', s)
      else
        (let task = t\<lparr>status := Some (text_of (p_status p))\<rparr>;
             s1 = s\<lparr>tasks := map (\<lambda>x. if t_id x = i then task else x) (tasks s)\<rparr>
         in (Success 200 task,
             if p_status p = Val ''completed''
             then createNotification s1 (created_by t) ''task_completed'' ''Task Completed''
                    (student_name s1 (a_id u) @ '' completed the task: '' @ quoted (title task))
                    (Some (t_id task)) None
             else s1)))"
proof (cases "p_status p")
  case (Val st)
  with assms show ?thesis
    by (simp add: updateTask_def truthy_def text_of_def update_task_status Let_def)
qed (simp_all add: updateTask_def truthy_def assms)

lemma updateTask_student_ignores:
  assumes "a_role u = Student" "task_by_id s i = Some t" "assignee_id t = Some (a_id u)"
    and "p_status p = p_status q"
  shows "updateTask s u i p = updateTask s u i q"
  by (simp add: updateTask_student [OF assms(1-3)] assms(4))

text \<open>
  Claim C2, amended. For a student and a task assigned to them, \<^verbatim>\<open>updateTask\<close> reads
  only \<^verbatim>\<open>status\<close> from the body. A body with no status (absent, null or empty) fails
  with a validation error. Every other field of the body is ignored and not refused: the
  call does exactly what it does for the body that holds the status alone, and when it
  succeeds the status was given and the task table differs from the old one in the status
  of that task only.
\<close>

theorem updateTask_student_status_only:
  assumes "a_role u = Student" "task_by_id s i = Some t" "assignee_id t = Some (a_id u)"
  shows "(\<not> truthy (p_status p) \<longrightarrow>
            updateTask s u i p = (Failure 400 ''Students can only update task status'', s)
            \<and> fails_with (fst (updateTask s u i p)) ValidationError)
       \<and> updateTask s u i p = updateTask s u i (empty_payload\<lparr>p_status := p_status p\<rparr>)
       \<and> (\<forall>c task s'. updateTask s u i p = (Success c task, s') \<longrightarrow>
             truthy (p_status p)
             \<and> task = t\<lparr>status := Some (text_of (p_status p))\<rparr>
             \<and> tasks s' = map (\<lambda>x. if t_id x = i then task else x) (tasks s))"
proof (intro conjI allI impI)
  assume "\<not> truthy (p_status p)"
  then show r: "updateTask s u i p = (Failure 400 ''Students can only update task status'', s)"
    by (simp add: updateTask_student [OF assms])
  show "fails_with (fst (updateTask s u i p)) ValidationError"
    unfolding r by (simp add: fails_with_def error_of_status_def)
next
  show "updateTask s u i p = updateTask s u i (empty_payload\<lparr>p_status := p_status p\<rparr>)"
    by (rule updateTask_student_ignores [OF assms]) simp
next
  fix c task s'
  assume ok: "updateTask s u i p = (Success c task, s')"
  then show "truthy (p_status p)"
    by (auto simp: updateTask_student [OF assms] split: if_splits)
  from ok show "task = t\<lparr>status := Some (text_of (p_status p))\<rparr>"
    by (auto simp: updateTask_student [OF assms] Let_def split: if_splits)
  from ok show "tasks s' = map (\<lambda>x. if t_id x = i then task else x) (tasks s)"
    by (auto simp: updateTask_student [OF assms] Let_def createNotification_def split: if_splits)
qed

lemma essay_found: "task_by_id school 30 = Some essay"
  by (simp add: school_defs store_defs)

lemma sam_assigned: "a_role sam = Student \<and> assignee_id essay = Some (a_id sam)"
  by (simp add: school_defs)

lemma essay_status_ok:
  "task_row_ok school (essay\<lparr>status := Some st\<rparr>) \<longleftrightarrow> st \<in> {''todo'', ''in-progress'', ''completed''}"
  by (simp add: task_row_ok_def school_defs store_defs)

lemma sam_updates:
  "updateTask school sam 30 (empty_payload\<lparr>p_status := Val ''in-progress'', p_title := Val ''Hacked''\<rparr>)
     = (Success 200 (essay\<lparr>status := Some ''in-progress''\<rparr>), busy_school)"
proof -
  have "task_row_ok school (essay\<lparr>status := Some ''in-progress''\<rparr>)"
    by (simp add: essay_status_ok)
  then show ?thesis
    using sam_assigned
    by (simp add: updateTask_student [OF _ essay_found] truthy_def text_of_def Let_def
        empty_payload_def busy_school_def)
       (simp add: school_def essay_def)
qed

text \<open>
  Claim C2, as stated, fails on the code: student 3 sends a new title along with a
  status for the task assigned to them, and the call succeeds; the status is stored and
  the title is left alone.
\<close>

theorem updateTask_student_extra_field_counterexample:
  "fst (updateTask school sam 30
          (empty_payload\<lparr>p_status := Val ''in-progress'', p_title := Val ''Hacked''\<rparr>))
     = Success 200 (essay\<lparr>status := Some ''in-progress''\<rparr>)
   \<and> \<not> fails_with (fst (updateTask school sam 30
          (empty_payload\<lparr>p_status := Val ''in-progress'', p_title := Val ''Hacked''\<rparr>)))
        ValidationError
   \<and> tasks (snd (updateTask school sam 30
          (empty_payload\<lparr>p_status := Val ''in-progress'', p_title := Val ''Hacked''\<rparr>)))
     = [essay\<lparr>status := Some ''in-progress''\<rparr>]
   \<and> title (essay\<lparr>status := Some ''in-progress''\<rparr>) = ''Essay''"
  by (simp add: sam_updates fails_with_def busy_school_def) (simp add: essay_def)

text \<open>Student 3 sends a title alone, and a title with a status.\<close>

theorem updateTask_student_status_only_witness:
  "updateTask school sam 30 (empty_payload\<lparr>p_title := Val ''Hacked''\<rparr>)
     = (Failure 400 ''Students can only update task status'', school)
   \<and> updateTask school sam 30
        (empty_payload\<lparr>p_status := Val ''in-progress'', p_title := Val ''Hacked''\<rparr>)
     = updateTask school sam 30 (empty_payload\<lparr>p_status := Val ''in-progress''\<rparr>)
   \<and> tasks (snd (updateTask school sam 30
        (empty_payload\<lparr>p_status := Val ''in-progress'', p_title := Val ''Hacked''\<rparr>)))
     = [essay\<lparr>status := Some ''in-progress''\<rparr>]"
proof -
  let ?p = "empty_payload\<lparr>p_title := Val ''Hacked''\<rparr>"
  let ?q = "empty_payload\<lparr>p_status := Val ''in-progress'', p_title := Val ''Hacked''\<rparr>"
  have a: "a_role sam = Student" "assignee_id essay = Some (a_id sam)"
    using sam_assigned by simp_all
  note only = updateTask_student_status_only [OF a(1) essay_found a(2)]
  have n: "\<not> truthy (p_status ?p)" by (simp add: empty_payload_def truthy_def)
  from only [of ?p] n
  have 1: "updateTask school sam 30 ?p = (Failure 400 ''Students can only update task status'', school)"
    by simp
  from only [of ?q]
  have 2: "updateTask school sam 30 ?q
      = updateTask school sam 30 (empty_payload\<lparr>p_status := Val ''in-progress''\<rparr>)"
    by simp
  from only [of ?q] sam_updates
  have "tasks busy_school
      = map (\<lambda>x. if t_id x = 30 then essay\<lparr>status := Some ''in-progress''\<rparr> else x) (tasks school)"
    by (simp add: text_of_def)
  also have "\<dots> = [essay\<lparr>status := Some ''in-progress''\<rparr>]"
    by (simp add: school_def essay_def)
  finally have 3: "tasks (snd (updateTask school sam 30 ?q)) = [essay\<lparr>status := Some ''in-progress''\<rparr>]"
    by (simp add: sam_updates)
  from 1 2 3 show ?thesis by simp
qed

lemma task_ids_replace:
  assumes "t_id t' = i"
  shows "task_ids (s\<lparr>tasks := map (\<lambda>x. if t_id x = i then t' else x) (tasks s)\<rparr>) = task_ids s"
  using assms by (simp add: task_ids_def)

lemma notification_after_update:
  assumes "task_by_id s i = Some t" "task_row_ok s t'" "created_by t' = created_by t" "t_id t' = i"
  shows "createNotification (s\<lparr>tasks := map (\<lambda>x. if t_id x = i then t' else x) (tasks s)\<rparr>)
           (created_by t) ''task_completed'' ''Task Completed'' msg (Some i) None
       = s\<lparr>tasks := map (\<lambda>x. if t_id x = i then t' else x) (tasks s),
            notifications := notifications s @
              [\<lparr>n_id = next_id s, n_user_id = created_by t, n_type = ''task_completed'',
                n_title = ''Task Completed'', n_message = msg, n_task_id = Some i,
                n_class_id = None, is_read = False\<rparr>],
            next_id := Suc (next_id s)\<rparr>"
proof -
  let ?s1 = "s\<lparr>tasks := map (\<lambda>x. if t_id x = i then t' else x) (tasks s)\<rparr>"
  let ?n = "\<lparr>n_id = next_id s, n_user_id = created_by t, n_type = ''task_completed'',
                n_title = ''Task Completed'', n_message = msg, n_task_id = Some i,
                n_class_id = None, is_read = False\<rparr>"
  from assms(1) have "t \<in> set (tasks s) \<and> t_id t = i" by (rule task_by_id_mem)
  then have "i \<in> t_id ` set (tasks s)" by force
  then have "i \<in> set (task_ids s)" by (simp add: task_ids_def)
  then have i: "i \<in> set (task_ids ?s1)" by (simp only: task_ids_replace [OF assms(4)])
  from assms(2,3) have "created_by t \<in> set (user_ids s)"
    by (simp add: task_row_ok_def)
  then have u: "created_by t \<in> set (user_ids ?s1)" by (simp add: user_ids_def)
  from i u have "notification_row_ok ?s1 ?n"
    by (simp add: notification_row_ok_def references_def)
  then show ?thesis
    by (simp add: createNotification_def)
qed

text \<open>
  Claim C4, amended. When a student's \<^verbatim>\<open>updateTask\<close> succeeds, a notification of type
  \<^verbatim>\<open>task_completed\<close>, addressed to the task's creator and referring to the task, is
  added if and only if the status now stored is \<^verbatim>\<open>completed\<close>, whatever the status was
  before; such a call adds exactly one notification and any other call none.
\<close>

theorem updateTask_student_notifies:
  assumes "a_role u = Student" "updateTask s u i p = (Success c task, s')"
  shows "(status task = Some ''completed'' \<longrightarrow>
            (\<exists>n. notifications s' = notifications s @ [n] \<and> n_type n = ''task_completed''
                 \<and> n_user_id n = created_by task \<and> n_task_id n = Some i))
       \<and> (status task \<noteq> Some ''completed'' \<longrightarrow> notifications s' = notifications s)"
proof -
  from assms obtain t where t: "task_by_id s i = Some t" and a: "assignee_id t = Some (a_id u)"
    by (auto simp: updateTask_def split: option.splits if_splits)
  note run = assms(2) [unfolded updateTask_student [OF assms(1) t a]]
  from run have st: "truthy (p_status p)"
    and ok: "task_row_ok s (t\<lparr>status := Some (text_of (p_status p))\<rparr>)"
    by (auto split: if_splits)
  from st obtain x where x: "p_status p = Val x"
    by (cases "p_status p") (simp_all add: truthy_def)
  from run st ok have task: "task = t\<lparr>status := Some x\<rparr>"
    by (simp add: Let_def x text_of_def)
  from task_by_id_mem [OF t] have id: "t_id (t\<lparr>status := Some x\<rparr>) = i" by simp
  show ?thesis
  proof (cases "x = ''completed''")
    case True
    from ok have ok': "task_row_ok s (t\<lparr>status := Some ''completed''\<rparr>)"
      by (simp add: x True text_of_def)
    have id': "t_id (t\<lparr>status := Some ''completed''\<rparr>) = i" using id by simp
    from run st ok have "notifications s' = notifications s @
        [\<lparr>n_id = next_id s, n_user_id = created_by t, n_type = ''task_completed'',
          n_title = ''Task Completed'',
          n_message = student_name (s\<lparr>tasks := map (\<lambda>y. if t_id y = i then t\<lparr>status := Some ''completed''\<rparr> else y) (tasks s)\<rparr>) (a_id u)
             @ '' completed the task: '' @ quoted (title t),
          n_task_id = Some i, n_class_id = None, is_read = False\<rparr>]"
      using id'
      by (auto simp add: Let_def x True text_of_def notification_after_update [OF t ok' _ id'])
    with task True show ?thesis by simp
  next
    case False
    with run st ok have "notifications s' = notifications s"
      by (auto simp add: Let_def x)
    with task False show ?thesis by simp
  qed
qed

lemma done_found: "task_by_id done_school 30 = Some (essay\<lparr>status := Some ''completed''\<rparr>)"
  by (simp add: done_school_def school_defs store_defs)

lemma done_status_ok: "task_row_ok done_school (essay\<lparr>status := Some ''completed''\<rparr>)"
  by (simp add: task_row_ok_def done_school_def school_defs store_defs)

lemma sam_completes_again:
  "updateTask done_school sam 30 (empty_payload\<lparr>p_status := Val ''completed''\<rparr>)
     = (Success 200 (essay\<lparr>status := Some ''completed''\<rparr>),
        done_school\<lparr>notifications := [completed_note], next_id := 41\<rparr>)"
proof -
  have a: "a_role sam = Student" "assignee_id (essay\<lparr>status := Some ''completed''\<rparr>) = Some (a_id sam)"
    using sam_assigned by simp_all
  have n: "student_name (done_school\<lparr>tasks := [essay\<lparr>status := Some ''completed''\<rparr>]\<rparr>) 3 = ''Sam''"
    by (simp add: student_name_def user_by_id_def single_def done_school_def school_def school_users_def)
  have t: "tasks done_school = [essay\<lparr>status := Some ''completed''\<rparr>]"
         "notifications done_school = []" "next_id done_school = 40"
    by (simp_all add: done_school_def school_def)
  have c: "created_by essay = 1" "t_id essay = 30" "title essay = ''Essay''" "a_id sam = 3"
    by (simp_all add: essay_def sam_def)
  have k: "notification_row_ok done_school completed_note"
    by (simp add: notification_row_ok_def completed_note_def done_school_def school_defs store_defs)
  show ?thesis
    using done_status_ok k
    by (simp add: updateTask_student [OF a(1) done_found a(2)] truthy_def text_of_def Let_def
        empty_payload_def createNotification_def t c n completed_note_def notification_row_ok_def
        user_ids_def task_ids_def class_ids_def)
qed

text \<open>
  Claim C4, as stated, fails on the code: the task is already completed, student 3 sets
  it to completed again, which is no transition, and the creator is notified all the same.
\<close>

theorem updateTask_completed_again_counterexample:
  "task_by_id done_school 30 = Some (essay\<lparr>status := Some ''completed''\<rparr>)
   \<and> notifications done_school = []
   \<and> updateTask done_school sam 30 (empty_payload\<lparr>p_status := Val ''completed''\<rparr>)
       = (Success 200 (essay\<lparr>status := Some ''completed''\<rparr>),
          done_school\<lparr>notifications := [completed_note], next_id := 41\<rparr>)
   \<and> n_type completed_note = ''task_completed'' \<and> n_user_id completed_note = created_by essay"
  by (simp add: done_found sam_completes_again) (simp add: done_school_def school_def completed_note_def essay_def)

lemma sam_completes:
  "updateTask school sam 30 (empty_payload\<lparr>p_status := Val ''completed''\<rparr>)
     = (Success 200 (essay\<lparr>status := Some ''completed''\<rparr>),
        done_school\<lparr>notifications := [completed_note], next_id := 41\<rparr>)"
proof -
  have a: "a_role sam = Student" "assignee_id essay = Some (a_id sam)"
    using sam_assigned by simp_all
  have n: "student_name (school\<lparr>tasks := [essay\<lparr>status := Some ''completed''\<rparr>]\<rparr>) 3 = ''Sam''"
    by (simp add: student_name_def user_by_id_def single_def school_def school_users_def)
  have t: "tasks school = [essay]" "notifications school = []" "next_id school = 40"
    by (simp_all add: school_def)
  have c: "created_by essay = 1" "t_id essay = 30" "title essay = ''Essay''" "a_id sam = 3"
    by (simp_all add: essay_def sam_def)
  have o: "task_row_ok school (essay\<lparr>status := Some ''completed''\<rparr>)"
    by (simp add: essay_status_ok)
  have k: "notification_row_ok (school\<lparr>tasks := [essay\<lparr>status := Some ''completed''\<rparr>]\<rparr>) completed_note"
    by (simp add: notification_row_ok_def completed_note_def school_defs store_defs)
  show ?thesis
    using o k
    by (simp add: updateTask_student [OF a(1) essay_found a(2)] truthy_def text_of_def Let_def
        empty_payload_def createNotification_def t c n completed_note_def notification_row_ok_def
        user_ids_def task_ids_def class_ids_def done_school_def)
qed

text \<open>Student 3 completes the task of teacher 1, and sets it to in-progress.\<close>

theorem updateTask_student_notifies_witness:
  "(\<exists>n. notifications (snd (updateTask school sam 30 (empty_payload\<lparr>p_status := Val ''completed''\<rparr>)))
          = notifications school @ [n]
        \<and> n_type n = ''task_completed'' \<and> n_user_id n = 1 \<and> n_task_id n = Some 30)
   \<and> notifications (snd (updateTask school sam 30
        (empty_payload\<lparr>p_status := Val ''in-progress'', p_title := Val ''Hacked''\<rparr>)))
     = notifications school"
proof -
  have a: "a_role sam = Student" using sam_assigned by simp
  have c: "created_by essay = 1" by (simp add: essay_def)
  from updateTask_student_notifies [OF a sam_completes] c
  have 1: "\<exists>n. notifications (done_school\<lparr>notifications := [completed_note], next_id := 41\<rparr>)
          = notifications school @ [n]
        \<and> n_type n = ''task_completed'' \<and> n_user_id n = 1 \<and> n_task_id n = Some 30"
    by simp
  from updateTask_student_notifies [OF a sam_updates]
  have 2: "notifications busy_school = notifications school"
    by simp
  from 1 2 show ?thesis
    by (simp only: sam_completes sam_updates snd_conv) 
qed

lemma updateTask_editor:
  assumes "a_role u \<noteq> Student" "task_by_id s i = Some t" "created_by t = a_id u \<or> a_role u = Admin"
  shows "updateTask s u i p =
     (if updateData p = no_update then (Failure 400 ''No fields to update'', s)
      else (case update_task s i (updateData p) of
              None \<Rightarrow> (Failure 500 ''Failed to update task'', s)
            | Some (task, s1) \<Rightarrow> (Success 200 task, s1)))"
  using assms by (auto simp: updateTask_def)

lemma status_row_ok:
  assumes "task_row_ok s t"
  shows "task_row_ok s (t\<lparr>status := Some st\<rparr>) \<longleftrightarrow> st \<in> {''todo'', ''in-progress'', ''completed''}"
  using assms by (simp add: task_row_ok_def)

lemma updateData_status:
  "updateData (empty_payload\<lparr>p_status := Val st\<rparr>) = no_update\<lparr>new_status := Val st\<rparr>"
  "no_update\<lparr>new_status := Val st\<rparr> \<noteq> no_update"
  by (simp_all add: updateData_def empty_payload_def no_update_def)

text \<open>
  Claim C10, amended. The handlers do not compare a status with the three known values;
  the store does. For a task whose row satisfies the constraints of its table, the body
  \<^verbatim>\<open>{status: st}\<close> from a teacher or admin who may edit the task succeeds and stores
  \<open>st\<close> verbatim exactly when \<open>st\<close> is \<^verbatim>\<open>todo\<close>, \<^verbatim>\<open>in-progress\<close> or \<^verbatim>\<open>completed\<close>, and is
  otherwise answered 500 with the store unchanged. The same holds for the assigned
  student, except that the empty string is answered 400.
\<close>

theorem updateTask_status_checked_by_store:
  assumes "task_by_id s i = Some t" "task_row_ok s t"
  shows "(a_role u \<noteq> Student \<and> (created_by t = a_id u \<or> a_role u = Admin) \<longrightarrow>
            updateTask s u i (empty_payload\<lparr>p_status := Val st\<rparr>) =
              (if st \<in> {''todo'', ''in-progress'', ''completed''}
               then (Success 200 (t\<lparr>status := Some st\<rparr>),
                     s\<lparr>tasks := map (\<lambda>x. if t_id x = i then t\<lparr>status := Some st\<rparr> else x) (tasks s)\<rparr>)
               else (Failure 500 ''Failed to update task'', s)))
       \<and> (a_role u = Student \<and> assignee_id t = Some (a_id u) \<longrightarrow>
            fst (updateTask s u i (empty_payload\<lparr>p_status := Val st\<rparr>)) =
              (if st = [] then Failure 400 ''Students can only update task status''
               else if st \<in> {''todo'', ''in-progress'', ''completed''}
               then Success 200 (t\<lparr>status := Some st\<rparr>)
               else Failure 500 ''Failed to update task'')
            \<and> tasks (snd (updateTask s u i (empty_payload\<lparr>p_status := Val st\<rparr>))) =
              (if st \<in> {''todo'', ''in-progress'', ''completed''}
               then map (\<lambda>x. if t_id x = i then t\<lparr>status := Some st\<rparr> else x) (tasks s)
               else tasks s))"
proof (intro conjI impI)
  assume h: "a_role u \<noteq> Student \<and> (created_by t = a_id u \<or> a_role u = Admin)"
  then have e: "a_role u \<noteq> Student" "created_by t = a_id u \<or> a_role u = Admin" by simp_all
  show "updateTask s u i (empty_payload\<lparr>p_status := Val st\<rparr>) =
              (if st \<in> {''todo'', ''in-progress'', ''completed''}
               then (Success 200 (t\<lparr>status := Some st\<rparr>),
                     s\<lparr>tasks := map (\<lambda>x. if t_id x = i then t\<lparr>status := Some st\<rparr> else x) (tasks s)\<rparr>)
               else (Failure 500 ''Failed to update task'', s))"
    by (simp add: updateTask_editor [OF e(1) assms(1) e(2)] updateData_status
        update_task_status [OF assms(1)] status_row_ok [OF assms(2)])
next
  assume h: "a_role u = Student \<and> assignee_id t = Some (a_id u)"
  then have e: "a_role u = Student" "assignee_id t = Some (a_id u)" by simp_all
  have p: "p_status (empty_payload\<lparr>p_status := Val st\<rparr>) = Val st" by simp
  show "fst (updateTask s u i (empty_payload\<lparr>p_status := Val st\<rparr>)) =
              (if st = [] then Failure 400 ''Students can only update task status''
               else if st \<in> {''todo'', ''in-progress'', ''completed''}
               then Success 200 (t\<lparr>status := Some st\<rparr>)
               else Failure 500 ''Failed to update task'')"
    by (simp add: updateTask_student [OF e(1) assms(1) e(2)] p truthy_def text_of_def
        status_row_ok [OF assms(2)] Let_def)
  show "tasks (snd (updateTask s u i (empty_payload\<lparr>p_status := Val st\<rparr>))) =
              (if st \<in> {''todo'', ''in-progress'', ''completed''}
               then map (\<lambda>x. if t_id x = i then t\<lparr>status := Some st\<rparr> else x) (tasks s)
               else tasks s)"
    by (simp add: updateTask_student [OF e(1) assms(1) e(2)] p truthy_def text_of_def
        status_row_ok [OF assms(2)] Let_def createNotification_def)
qed

lemma essay_ok: "task_row_ok school essay"
  by (simp add: task_row_ok_def school_defs store_defs)

lemma tina_owns: "a_role tina \<noteq> Student \<and> (created_by essay = a_id tina \<or> a_role tina = Admin)"
  by (simp add: school_defs)

lemma tina_done:
  "updateTask school tina 30 (empty_payload\<lparr>p_status := Val ''done''\<rparr>)
     = (Failure 500 ''Failed to update task'', school)"
proof -
  have e: "a_role tina \<noteq> Student" "created_by essay = a_id tina \<or> a_role tina = Admin"
    using tina_owns by simp_all
  show ?thesis
    by (simp add: updateTask_editor [OF e(1) essay_found e(2)] updateData_status
        update_task_status [OF essay_found] essay_status_ok)
qed

lemma sam_done:
  "updateTask school sam 30 (empty_payload\<lparr>p_status := Val ''done''\<rparr>)
     = (Failure 500 ''Failed to update task'', school)"
proof -
  have a: "a_role sam = Student" "assignee_id essay = Some (a_id sam)"
    using sam_assigned by simp_all
  show ?thesis
    by (simp add: updateTask_student [OF a(1) essay_found a(2)] truthy_def text_of_def
        essay_status_ok)
qed

lemma sam_blank:
  "updateTask school sam 30 (empty_payload\<lparr>p_status := Val ''''\<rparr>)
     = (Failure 400 ''Students can only update task status'', school)"
proof -
  have a: "a_role sam = Student" "assignee_id essay = Some (a_id sam)"
    using sam_assigned by simp_all
  show ?thesis
    by (simp add: updateTask_student [OF a(1) essay_found a(2)] truthy_def)
qed

text \<open>
  Claim C10, as stated, fails on the code: the status "done" sent by the task's teacher
  or by its assigned student is refused by the CHECK constraint of \<^verbatim>\<open>tasks.status\<close>,
  the handler answers 500 and the store keeps the old status; the empty status sent by the
  student is answered 400 by the handler itself.
\<close>

theorem updateTask_unknown_status_counterexample:
  "updateTask school tina 30 (empty_payload\<lparr>p_status := Val ''done''\<rparr>)
     = (Failure 500 ''Failed to update task'', school)
   \<and> updateTask school sam 30 (empty_payload\<lparr>p_status := Val ''done''\<rparr>)
     = (Failure 500 ''Failed to update task'', school)
   \<and> updateTask school sam 30 (empty_payload\<lparr>p_status := Val ''''\<rparr>)
     = (Failure 400 ''Students can only update task status'', school)
   \<and> status essay = Some ''todo''"
  by (simp add: tina_done sam_done sam_blank) (simp add: essay_def)

text \<open>Teacher 1 and student 3 send a known and an unknown status for task 30.\<close>

theorem updateTask_status_checked_by_store_witness:
  "updateTask school tina 30 (empty_payload\<lparr>p_status := Val ''in-progress''\<rparr>)
     = (Success 200 (essay\<lparr>status := Some ''in-progress''\<rparr>), busy_school)
   \<and> updateTask school tina 30 (empty_payload\<lparr>p_status := Val ''finished''\<rparr>)
     = (Failure 500 ''Failed to update task'', school)
   \<and> fst (updateTask school sam 30 (empty_payload\<lparr>p_status := Val ''in-progress''\<rparr>))
     = Success 200 (essay\<lparr>status := Some ''in-progress''\<rparr>)
   \<and> tasks (snd (updateTask school sam 30 (empty_payload\<lparr>p_status := Val ''in-progress''\<rparr>)))
     = [essay\<lparr>status := Some ''in-progress''\<rparr>]
   \<and> fst (updateTask school sam 30 (empty_payload\<lparr>p_status := Val ''finished''\<rparr>))
     = Failure 500 ''Failed to update task''"
proof -
  note checked = updateTask_status_checked_by_store [OF essay_found essay_ok]
  have m: "map (\<lambda>x. if t_id x = 30 then essay\<lparr>status := Some ''in-progress''\<rparr> else x) (tasks school)
      = [essay\<lparr>status := Some ''in-progress''\<rparr>]"
    by (simp add: school_def essay_def)
  have b: "school\<lparr>tasks := [essay\<lparr>status := Some ''in-progress''\<rparr>]\<rparr> = busy_school"
    by (simp add: busy_school_def)
  from checked [of tina "''in-progress''"] tina_owns
  have 1: "updateTask school tina 30 (empty_payload\<lparr>p_status := Val ''in-progress''\<rparr>)
     = (Success 200 (essay\<lparr>status := Some ''in-progress''\<rparr>), busy_school)"
    by (simp add: m b)
  from checked [of tina "''finished''"] tina_owns
  have 2: "updateTask school tina 30 (empty_payload\<lparr>p_status := Val ''finished''\<rparr>)
     = (Failure 500 ''Failed to update task'', school)"
    by simp
  from checked [of sam "''in-progress''"] sam_assigned
  have 3: "fst (updateTask school sam 30 (empty_payload\<lparr>p_status := Val ''in-progress''\<rparr>))
     = Success 200 (essay\<lparr>status := Some ''in-progress''\<rparr>)"
    and 4: "tasks (snd (updateTask school sam 30 (empty_payload\<lparr>p_status := Val ''in-progress''\<rparr>)))
     = [essay\<lparr>status := Some ''in-progress''\<rparr>]"
    by (simp_all add: m)
  from checked [of sam "''finished''"] sam_assigned
  have 5: "fst (updateTask school sam 30 (empty_payload\<lparr>p_status := Val ''finished''\<rparr>))
     = Failure 500 ''Failed to update task''"
    by simp
  from 1 2 3 4 5 show ?thesis by simp
qed

section \<open>Reading a class\<close>

lemma getClass_student_outsider:
  assumes "a_role u = Student" "membership s i (a_id u) = None"
  shows "fails_with (getClass s u i) NotFoundError \<or> fails_with (getClass s u i) ForbiddenError"
  using assms by (simp add: getClass_def fails_with_def error_of_status_def split: option.splits)

lemma getClassMembers_unguarded: "succeeds (getClassMembers s u i)"
  by (simp add: getClassMembers_def succeeds_def)

text \<open>
  Claim C5 holds for \<^verbatim>\<open>getClass\<close> and fails for \<^verbatim>\<open>getClassMembers\<close>, which looks up no
  membership and refuses nobody. Student 5 is no member of class 10: \<^verbatim>\<open>getClass\<close>
  answers 403, and \<^verbatim>\<open>getClassMembers\<close> answers 200 with the members of the class.
\<close>

theorem getClassMembers_outsider_listed:
  "a_role sue = Student
   \<and> membership school 10 (a_id sue) = None
   \<and> getClass school sue 10 = Failure 403 ''Forbidden - you are not a member of this class''
   \<and> getClassMembers school sue 10
     = Success 200 [Some \<lparr>u_id = 3, u_name = ''Sam'', u_role = Student\<rparr>]"
  by (simp add: getClass_def getClassMembers_def membership_def members_of_def
      school_defs store_defs)

section \<open>Tasks and the admin\<close>

lemma getTasks_rows_admin:
  assumes "a_role u = Admin"
  shows "set (getTasks_rows s u q) \<subseteq> {x \<in> set (tasks s). created_by x = a_id u}"
  using assms by (auto simp: getTasks_rows_def Let_def split: option.splits if_splits)

lemma getTasks_first_page:
  assumes "a_role u = Admin"
  shows "getTasks s u first_page =
     Success 200 \<lparr>pg_tasks = take 10 (rev [x \<leftarrow> tasks s. created_by x = a_id u]),
                  pg_total = length [x \<leftarrow> tasks s. created_by x = a_id u]\<rparr>"
  using assms by (simp add: getTasks_def getTasks_rows_def first_page_def wanted_def Let_def)

lemma update_task_found:
  assumes "task_by_id s i = Some t"
  shows "update_task s i d =
     (if new_title d = Null \<or> \<not> task_row_ok s (apply_update d t) then None
      else Some (apply_update d t,
                 s\<lparr>tasks := map (\<lambda>x. if t_id x = i then apply_update d t else x) (tasks s)\<rparr>))"
  using assms by (simp add: update_task_def)

text \<open>
  Claim C3, as stated, fails on the code: the school has a task, the admin may read it by
  id, and the admin's \<^verbatim>\<open>getTasks\<close> lists nothing, since the admin created no task.
\<close>

theorem getTasks_admin_counterexample:
  "a_role ada = Admin \<and> tasks school = [essay]
   \<and> getTask school ada 30 = Success 200 essay
   \<and> getTasks school ada first_page = Success 200 \<lparr>pg_tasks = [], pg_total = 0\<rparr>"
proof -
  have a: "a_role ada = Admin" by (simp add: ada_def)
  have c: "[x \<leftarrow> tasks school. created_by x = a_id ada] = []"
    by (simp add: school_defs)
  have g: "getTask school ada 30 = Success 200 essay"
    using a by (simp add: getTask_def essay_found)
  from a c g show ?thesis
    by (simp add: getTasks_first_page) (simp add: school_def)
qed

text \<open>
  Claim C3, amended. An admin passes every ownership check on a single task: for a task
  that exists, \<^verbatim>\<open>getTask\<close> and \<^verbatim>\<open>deleteTask\<close> succeed, and \<^verbatim>\<open>updateTask\<close> is never
  answered forbidden or not found; it succeeds when the body names a field and the store
  accepts the new row, with no condition on \<^verbatim>\<open>created_by\<close> or \<^verbatim>\<open>assignee_id\<close>. The
  admin's \<^verbatim>\<open>getTasks\<close> lists only tasks the admin created, as a teacher's does.
\<close>

theorem admin_task_access:
  assumes "a_role u = Admin" "task_by_id s i = Some t"
  shows "getTask s u i = Success 200 t
       \<and> deleteTask s u i =
           (Success 200 (),
            s\<lparr>tasks := [x \<leftarrow> tasks s. t_id x \<noteq> i],
              notifications := [n \<leftarrow> notifications s. n_task_id n \<noteq> Some i]\<rparr>)
       \<and> updateTask s u i p =
           (if updateData p = no_update then (Failure 400 ''No fields to update'', s)
            else if p_title p = Null \<or> \<not> task_row_ok s (apply_update (updateData p) t)
            then (Failure 500 ''Failed to update task'', s)
            else (Success 200 (apply_update (updateData p) t),
                  s\<lparr>tasks := map (\<lambda>x. if t_id x = i then apply_update (updateData p) t else x)
                                (tasks s)\<rparr>))
       \<and> \<not> fails_with (fst (updateTask s u i p)) ForbiddenError
       \<and> \<not> fails_with (fst (updateTask s u i p)) NotFoundError
       \<and> set (getTasks_rows s u q) \<subseteq> {x \<in> set (tasks s). created_by x = a_id u}
       \<and> getTasks s u first_page =
           Success 200 \<lparr>pg_tasks = take 10 (rev [x \<leftarrow> tasks s. created_by x = a_id u]),
                        pg_total = length [x \<leftarrow> tasks s. created_by x = a_id u]\<rparr>"
proof -
  have g: "getTask s u i = Success 200 t"
    using assms by (simp add: getTask_def)
  have d: "deleteTask s u i =
           (Success 200 (),
            s\<lparr>tasks := [x \<leftarrow> tasks s. t_id x \<noteq> i],
              notifications := [n \<leftarrow> notifications s. n_task_id n \<noteq> Some i]\<rparr>)"
    using assms by (simp add: deleteTask_def)
  have e: "a_role u \<noteq> Student" "created_by t = a_id u \<or> a_role u = Admin"
    using assms(1) by simp_all
  have n: "new_title (updateData p) = p_title p" by (simp add: updateData_def)
  have up: "updateTask s u i p =
           (if updateData p = no_update then (Failure 400 ''No fields to update'', s)
            else if p_title p = Null \<or> \<not> task_row_ok s (apply_update (updateData p) t)
            then (Failure 500 ''Failed to update task'', s)
            else (Success 200 (apply_update (updateData p) t),
                  s\<lparr>tasks := map (\<lambda>x. if t_id x = i then apply_update (updateData p) t else x)
                                (tasks s)\<rparr>))"
    by (simp add: updateTask_editor [OF e(1) assms(2) e(2)] update_task_found [OF assms(2)] n)
  have f: "\<not> fails_with (fst (updateTask s u i p)) ForbiddenError"
          "\<not> fails_with (fst (updateTask s u i p)) NotFoundError"
    unfolding up by (simp_all add: fails_with_def error_of_status_def)
  from g d up f getTasks_rows_admin [OF assms(1)] getTasks_first_page [OF assms(1)]
  show ?thesis by simp
qed

text \<open>The admin reads, deletes and retitles task 30 of teacher 1, and lists tasks.\<close>

theorem admin_task_access_witness:
  "getTask school ada 30 = Success 200 essay
   \<and> fst (deleteTask school ada 30) = Success 200 ()
   \<and> tasks (snd (deleteTask school ada 30)) = []
   \<and> fst (updateTask school ada 30 (empty_payload\<lparr>p_title := Val ''Report''\<rparr>))
     = Success 200 (essay\<lparr>title := ''Report''\<rparr>)
   \<and> fst (updateTask school ada 30 empty_payload) = Failure 400 ''No fields to update''
   \<and> getTasks school ada first_page = Success 200 \<lparr>pg_tasks = [], pg_total = 0\<rparr>"
proof -
  let ?p = "empty_payload\<lparr>p_title := Val ''Report''\<rparr>"
  have a: "a_role ada = Admin" by (simp add: ada_def)
  note access = admin_task_access [OF a essay_found]
  have c: "[x \<leftarrow> tasks school. created_by x = a_id ada] = []"
    by (simp add: school_defs)
  have t: "[x \<leftarrow> tasks school. t_id x \<noteq> 30] = []"
    by (simp add: school_defs)
  have u: "apply_update (updateData ?p) essay = essay\<lparr>title := ''Report''\<rparr>"
    by (simp add: apply_update_def updateData_def empty_payload_def set_column_def)
  have n: "updateData ?p \<noteq> no_update" "p_title ?p \<noteq> Null" "updateData empty_payload = no_update"
    by (simp_all add: updateData_def empty_payload_def no_update_def)
  have ok: "task_row_ok school (essay\<lparr>title := ''Report''\<rparr>)"
    by (simp add: task_row_ok_def school_defs store_defs)
  from access [of ?p] have 1: "getTask school ada 30 = Success 200 essay" by simp
  from access [of ?p] t have 2: "fst (deleteTask school ada 30) = Success 200 ()"
    and 3: "tasks (snd (deleteTask school ada 30)) = []" by simp_all
  from access [of ?p] u n ok
  have 4: "fst (updateTask school ada 30 ?p) = Success 200 (essay\<lparr>title := ''Report''\<rparr>)"
    by simp
  from access [of empty_payload] n
  have 5: "fst (updateTask school ada 30 empty_payload) = Failure 400 ''No fields to update''"
    by simp
  from access [of ?p first_page] c
  have 6: "getTasks school ada first_page = Success 200 \<lparr>pg_tasks = [], pg_total = 0\<rparr>"
    by simp
  from 1 2 3 4 5 6 show ?thesis by simp
qed

section \<open>The overdue scan\<close>

lemma is_overdue_note:
  "is_overdue_notification t' (overdue_note s t) \<longleftrightarrow> t_id t' = t_id t \<and> created_by t' = created_by t"
  by (auto simp: is_overdue_notification_def overdue_note_def)

lemma same_pair:
  assumes "t_id t' = t_id t" "created_by t' = created_by t"
  shows "overdue_notifications s t' = overdue_notifications s t"
proof -
  have "is_overdue_notification t' = is_overdue_notification t"
    using assms by (intro ext) (simp add: is_overdue_notification_def)
  then show ?thesis by (simp add: overdue_notifications_def)
qed

lemma insert_overdue_note:
  assumes "created_by t \<in> set (user_ids s)" "t_id t \<in> set (task_ids s)"
  shows "createNotification s (created_by t) ''task_overdue'' ''Task Overdue''
           (overdue_message t) (Some (t_id t)) None
       = s\<lparr>notifications := notifications s @ [overdue_note s t], next_id := Suc (next_id s)\<rparr>"
  using assms
  by (simp add: createNotification_def notification_row_ok_def references_def overdue_note_def)

lemma overdue_notifications_append:
  assumes "notifications s' = notifications s @ new"
  shows "overdue_notifications s' t
       = overdue_notifications s t @ filter (is_overdue_notification t) new"
  using assms by (simp add: overdue_notifications_def)

lemma maybeSingle_short:
  assumes "length rows \<le> 1"
  shows "maybeSingle rows = None \<longleftrightarrow> rows = []"
  using assms by (cases rows) (auto simp: maybeSingle_def split: list.splits)

text \<open>A scan over tasks, each with one notification already, changes nothing.\<close>

lemma notify_overdue_settled:
  assumes "\<forall>t \<in> set ts. length (overdue_notifications s t) = 1"
  shows "notify_overdue ts k s = (k, s)"
  using assms
proof (induction ts)
  case Nil
  then show ?case by simp
next
  case (Cons t ts)
  then have "length (overdue_notifications s t) = 1" by simp
  then obtain x where "overdue_notifications s t = [x]"
    by (cases "overdue_notifications s t") auto
  with Cons show ?case by (simp add: maybeSingle_def)
qed

text \<open>
  The scan over a list of tasks whose creators are users, from a store that holds at most
  one overdue notification for each task of a set \<open>T\<close> that contains the list.
\<close>

lemma notify_overdue_scan:
  assumes "notify_overdue ts k s = (k', s')"
    and "set ts \<subseteq> T"
    and "\<forall>t \<in> T. length (overdue_notifications s t) \<le> 1"
    and "\<forall>t \<in> set ts. created_by t \<in> set (user_ids s) \<and> t_id t \<in> set (task_ids s)"
  shows "\<exists>new. notifications s' = notifications s @ new \<and> k' = k + length new
           \<and> tasks s' = tasks s \<and> users s' = users s
           \<and> (\<forall>n \<in> set new. \<exists>t \<in> set ts. is_overdue_notification t n)
           \<and> (\<forall>t \<in> T. length (overdue_notifications s' t) \<le> 1)
           \<and> (\<forall>t \<in> set ts. length (overdue_notifications s' t) = 1)"
  using assms
proof (induction ts arbitrary: k s)
  case Nil
  then show ?case by simp
next
  case (Cons t ts)
  from Cons.prems have tT: "t \<in> T" and sub: "set ts \<subseteq> T" by simp_all
  from Cons.prems tT have short: "length (overdue_notifications s t) \<le> 1" by blast
  from Cons.prems have fk: "created_by t \<in> set (user_ids s)" "t_id t \<in> set (task_ids s)"
    by simp_all
  show ?case
  proof (cases "overdue_notifications s t = []")
    case True
    let ?s1 = "s\<lparr>notifications := notifications s @ [overdue_note s t], next_id := Suc (next_id s)\<rparr>"
    from True Cons.prems(1) have run: "notify_overdue ts (Suc k) ?s1 = (k', s')"
      by (simp add: maybeSingle_def insert_overdue_note [OF fk])
    have app: "notifications ?s1 = notifications s @ [overdue_note s t]" by simp
    have inv1: "\<forall>x \<in> T. length (overdue_notifications ?s1 x) \<le> 1"
    proof
      fix x assume x: "x \<in> T"
      show "length (overdue_notifications ?s1 x) \<le> 1"
      proof (cases "is_overdue_notification x (overdue_note s t)")
        case True
        then have "t_id x = t_id t" "created_by x = created_by t"
          by (simp_all add: is_overdue_note)
        then have "overdue_notifications s x = overdue_notifications s t"
          by (rule same_pair)
        with \<open>overdue_notifications s t = []\<close> True show ?thesis
          by (simp add: overdue_notifications_append [OF app])
      next
        case False
        with Cons.prems(3) x show ?thesis
          by (simp add: overdue_notifications_append [OF app])
      qed
    qed
    have fk1: "\<forall>x \<in> set ts. created_by x \<in> set (user_ids ?s1) \<and> t_id x \<in> set (task_ids ?s1)"
      using Cons.prems(4) by (simp add: user_ids_def task_ids_def)
    from Cons.IH [OF run sub inv1 fk1] obtain new where
      all: "notifications s' = notifications ?s1 @ new \<and> k' = Suc k + length new
        \<and> tasks s' = tasks ?s1 \<and> users s' = users ?s1
        \<and> (\<forall>n \<in> set new. \<exists>x \<in> set ts. is_overdue_notification x n)
        \<and> (\<forall>x \<in> T. length (overdue_notifications s' x) \<le> 1)
        \<and> (\<forall>x \<in> set ts. length (overdue_notifications s' x) = 1)" ..
    then have new: "notifications s' = notifications ?s1 @ new" "k' = Suc k + length new"
        "tasks s' = tasks ?s1" "users s' = users ?s1"
        "\<forall>n \<in> set new. \<exists>x \<in> set ts. is_overdue_notification x n"
        "\<forall>x \<in> T. length (overdue_notifications s' x) \<le> 1"
        "\<forall>x \<in> set ts. length (overdue_notifications s' x) = 1"
      by blast+
    have t1: "length (overdue_notifications s' t) = 1"
    proof -
      have "length (overdue_notifications ?s1 t) = 1"
        using True by (simp add: overdue_notifications_append [OF app] is_overdue_note)
      then have "1 \<le> length (overdue_notifications s' t)"
        by (simp add: overdue_notifications_append [OF new(1)])
      moreover from new(6) tT have "length (overdue_notifications s' t) \<le> 1" by blast
      ultimately show ?thesis by simp
    qed
    have "notifications s' = notifications s @ (overdue_note s t # new)"
      using new(1) by simp
    moreover have "k' = k + length (overdue_note s t # new)" using new(2) by simp
    moreover have "\<forall>n \<in> set (overdue_note s t # new). \<exists>x \<in> set (t # ts). is_overdue_notification x n"
      using new(5) by (auto simp: is_overdue_note)
    moreover have "\<forall>x \<in> set (t # ts). length (overdue_notifications s' x) = 1"
      using t1 new(7) by simp
    ultimately show ?thesis using new(3,4,6) by (intro exI [of _ "overdue_note s t # new"]) simp
  next
    case False
    with short obtain x where one: "overdue_notifications s t = [x]"
      by (cases "overdue_notifications s t") auto
    with Cons.prems(1) have run: "notify_overdue ts k s = (k', s')"
      by (simp add: maybeSingle_def)
    have fk1: "\<forall>x \<in> set ts. created_by x \<in> set (user_ids s) \<and> t_id x \<in> set (task_ids s)"
      using Cons.prems(4) by simp
    from Cons.IH [OF run sub Cons.prems(3) fk1] obtain new where
      all: "notifications s' = notifications s @ new \<and> k' = k + length new
        \<and> tasks s' = tasks s \<and> users s' = users s
        \<and> (\<forall>n \<in> set new. \<exists>x \<in> set ts. is_overdue_notification x n)
        \<and> (\<forall>x \<in> T. length (overdue_notifications s' x) \<le> 1)
        \<and> (\<forall>x \<in> set ts. length (overdue_notifications s' x) = 1)" ..
    then have new: "notifications s' = notifications s @ new" "k' = k + length new"
        "tasks s' = tasks s" "users s' = users s"
        "\<forall>n \<in> set new. \<exists>x \<in> set ts. is_overdue_notification x n"
        "\<forall>x \<in> T. length (overdue_notifications s' x) \<le> 1"
        "\<forall>x \<in> set ts. length (overdue_notifications s' x) = 1"
      by blast+
    have t1: "length (overdue_notifications s' t) = 1"
    proof -
      have "1 \<le> length (overdue_notifications s' t)"
        by (simp add: overdue_notifications_append [OF new(1)] one)
      moreover from new(6) tT have "length (overdue_notifications s' t) \<le> 1" by blast
      ultimately show ?thesis by simp
    qed
    have "\<forall>n \<in> set new. \<exists>x \<in> set (t # ts). is_overdue_notification x n"
      using new(5) by auto
    moreover have "\<forall>x \<in> set (t # ts). length (overdue_notifications s' x) = 1"
      using t1 new(7) by simp
    ultimately show ?thesis using new(1,2,3,4,6) by (intro exI [of _ new]) simp
  qed
qed

lemma essay_overdue: "filter (overdue 200) (tasks (late_school ns k)) = [essay]"
  by (simp add: late_school_def school_def overdue_def essay_def)

lemma essay_notes:
  "overdue_notifications (late_school ns k) essay = filter (\<lambda>n. n_task_id n = Some 30 \<and> n_type n = ''task_overdue'' \<and> n_user_id n = 1) ns"
proof -
  have "is_overdue_notification essay
      = (\<lambda>n. n_task_id n = Some 30 \<and> n_type n = ''task_overdue'' \<and> n_user_id n = 1)"
    by (rule ext) (simp add: is_overdue_notification_def essay_def)
  then show ?thesis
    by (simp add: overdue_notifications_def late_school_def school_def)
qed

lemma late_note_matches:
  "n_task_id (late_note i) = Some 30 \<and> n_type (late_note i) = ''task_overdue'' \<and> n_user_id (late_note i) = 1"
  by (simp add: late_note_def)

lemma essay_creator:
  "created_by essay \<in> set (user_ids (late_school ns k)) \<and> t_id essay \<in> set (task_ids (late_school ns k))"
  by (simp add: late_school_def school_defs store_defs)

lemma essay_note: "overdue_note (late_school ns k) essay = late_note k"
  by (simp add: overdue_note_def late_note_def late_school_def school_def) (simp add: essay_def)

lemma scan_inserts:
  assumes "maybeSingle (overdue_notifications (late_school ns k) essay) = None"
  shows "checkOverdueTasks 200 (late_school ns k)
       = (Success 200 1, late_school (ns @ [late_note k]) (Suc k))"
proof -
  have fk: "created_by essay \<in> set (user_ids (late_school ns k))"
    "t_id essay \<in> set (task_ids (late_school ns k))"
    using essay_creator by simp_all
  have "late_school ns k\<lparr>notifications := notifications (late_school ns k) @ [late_note k],
          next_id := Suc (next_id (late_school ns k))\<rparr> = late_school (ns @ [late_note k]) (Suc k)"
    by (simp add: late_school_def)
  with assms show ?thesis
    by (simp add: checkOverdueTasks_def essay_overdue insert_overdue_note [OF fk] essay_note)
qed

text \<open>
  Claim C1 asks that a scan right after a scan adds nothing, in every store. The handler
  looks for the notification it sent before and misses it when there are two or more:
  \<^verbatim>\<open>maybeSingle\<close> then gives no data. In a store that holds two overdue notifications
  for task 30 and its creator, as two scans running at once leave it, a scan on day 200
  adds a third notification although one exists, and the scan right after it, on the same
  day, counts 1 again and adds a fourth.
\<close>

theorem checkOverdueTasks_duplicates_grow:
  "filter (overdue 200) (tasks (late_school [late_note 21, late_note 22] 40)) = [essay]
   \<and> overdue_notifications (late_school [late_note 21, late_note 22] 40) essay
     = [late_note 21, late_note 22]
   \<and> checkOverdueTasks 200 (late_school [late_note 21, late_note 22] 40)
     = (Success 200 1, late_school [late_note 21, late_note 22, late_note 40] 41)
   \<and> checkOverdueTasks 200 (late_school [late_note 21, late_note 22, late_note 40] 41)
     = (Success 200 1, late_school [late_note 21, late_note 22, late_note 40, late_note 41] 42)"
proof -
  have 1: "overdue_notifications (late_school [late_note 21, late_note 22] 40) essay
     = [late_note 21, late_note 22]"
    by (simp add: essay_notes late_note_matches)
  have 2: "overdue_notifications (late_school [late_note 21, late_note 22, late_note 40] 41) essay
     = [late_note 21, late_note 22, late_note 40]"
    by (simp add: essay_notes late_note_matches)
  have "checkOverdueTasks 200 (late_school [late_note 21, late_note 22] 40)
     = (Success 200 1, late_school ([late_note 21, late_note 22] @ [late_note 40]) (Suc 40))"
    by (rule scan_inserts) (simp add: 1 maybeSingle_def)
  moreover have "checkOverdueTasks 200 (late_school [late_note 21, late_note 22, late_note 40] 41)
     = (Success 200 1, late_school ([late_note 21, late_note 22, late_note 40] @ [late_note 41]) (Suc 41))"
    by (rule scan_inserts) (simp add: 2 maybeSingle_def)
  ultimately show ?thesis using 1 by (simp add: essay_overdue)
qed

text \<open>
  Without such duplicates the scan is idempotent. Take a store in which every task that
  is overdue on a day has at most one \<^verbatim>\<open>task_overdue\<close> notification for its (task,
  creator) pair, and a creator who is a user. A scan on that day appends notifications,
  each for some overdue task, and answers with their number; it adds one for an overdue
  task if and only if the store held none for that task and creator. A second scan on
  the same day right after it answers with count 0 and leaves the store unchanged.
\<close>

lemma checkOverdueTasks_idempotent:
  assumes dedup: "\<forall>t \<in> set (tasks s). overdue today t \<longrightarrow> length (overdue_notifications s t) \<le> 1"
      and creators: "\<forall>t \<in> set (tasks s). overdue today t \<longrightarrow> created_by t \<in> set (user_ids s)"
      and first: "checkOverdueTasks today s = (r1, s1)"
      and second: "checkOverdueTasks today s1 = (r2, s2)"
  shows "(\<exists>new. notifications s1 = notifications s @ new \<and> r1 = Success 200 (length new)
            \<and> (\<forall>n \<in> set new. \<exists>t \<in> set (tasks s). overdue today t \<and> is_overdue_notification t n)
            \<and> (\<forall>t \<in> set (tasks s). overdue today t \<longrightarrow>
                  ((\<exists>n \<in> set new. is_overdue_notification t n)
                     \<longleftrightarrow> overdue_notifications s t = [])))
       \<and> r2 = Success 200 0 \<and> s2 = s1 \<and> length (notifications s2) = length (notifications s1)"
proof -
  let ?ts = "filter (overdue today) (tasks s)"
  obtain k' s' where run: "notify_overdue ?ts 0 s = (k', s')"
    by (cases "notify_overdue ?ts 0 s")
  have T: "set ?ts \<subseteq> set ?ts" by simp
  have inv: "\<forall>t \<in> set ?ts. length (overdue_notifications s t) \<le> 1"
    using dedup by simp
  have fk: "\<forall>t \<in> set ?ts. created_by t \<in> set (user_ids s) \<and> t_id t \<in> set (task_ids s)"
    using creators by (simp add: task_ids_def)
  from notify_overdue_scan [OF run T inv fk] obtain new where
    new: "notifications s' = notifications s @ new" "k' = 0 + length new"
      "tasks s' = tasks s" "users s' = users s"
      "\<forall>n \<in> set new. \<exists>x \<in> set ?ts. is_overdue_notification x n"
      "\<forall>x \<in> set ?ts. length (overdue_notifications s' x) \<le> 1"
      "\<forall>x \<in> set ?ts. length (overdue_notifications s' x) = 1"
    by blast
  have nil: "?ts = [] \<Longrightarrow> k' = 0 \<and> s' = s"
    using run by simp
  from first run nil have r1: "r1 = Success 200 k'" and s1: "s1 = s'"
    by (auto simp: checkOverdueTasks_def Let_def split: if_splits)
  have iff: "\<forall>t \<in> set (tasks s). overdue today t \<longrightarrow>
      ((\<exists>n \<in> set new. is_overdue_notification t n) \<longleftrightarrow> overdue_notifications s t = [])"
  proof (intro ballI impI)
    fix t assume "t \<in> set (tasks s)" "overdue today t"
    then have t: "t \<in> set ?ts" by simp
    with new(7) have one: "length (overdue_notifications s' t) = 1" by blast
    have split: "length (overdue_notifications s' t)
        = length (overdue_notifications s t) + length (filter (is_overdue_notification t) new)"
      by (simp add: overdue_notifications_append [OF new(1)])
    have "(\<exists>n \<in> set new. is_overdue_notification t n)
        \<longleftrightarrow> filter (is_overdue_notification t) new \<noteq> []"
      by (simp add: filter_empty_conv)
    also have "\<dots> \<longleftrightarrow> length (filter (is_overdue_notification t) new) \<noteq> 0" by simp
    also have "\<dots> \<longleftrightarrow> length (overdue_notifications s t) = 0"
      using one split by arith
    finally show "(\<exists>n \<in> set new. is_overdue_notification t n) \<longleftrightarrow> overdue_notifications s t = []"
      by simp
  qed
  have src: "\<forall>n \<in> set new. \<exists>t \<in> set (tasks s). overdue today t \<and> is_overdue_notification t n"
    using new(5) by auto
  have again: "notify_overdue (filter (overdue today) (tasks s1)) 0 s1 = (0, s1)"
    unfolding s1 new(3) by (rule notify_overdue_settled) (rule new(7))
  from second again have r2: "r2 = Success 200 0" and s2: "s2 = s1"
    by (auto simp: checkOverdueTasks_def Let_def split: if_splits)
  from new(1) new(2) r1 s1 src iff r2 s2 show ?thesis by auto
qed

text \<open>The school on day 200: task 30 was due on day 100 and has no notification yet.\<close>

lemma checkOverdueTasks_idempotent_on_school:
  "checkOverdueTasks 200 (late_school [] 40) = (Success 200 1, late_school [late_note 40] 41)
   \<and> checkOverdueTasks 200 (late_school [late_note 40] 41)
     = (Success 200 0, late_school [late_note 40] 41)
   \<and> late_school [] 40 = school"
proof -
  let ?s = "late_school [] 40" and ?s1 = "late_school [late_note 40] 41"
  have none: "overdue_notifications ?s essay = []"
    by (simp add: essay_notes)
  have first: "checkOverdueTasks 200 ?s = (Success 200 1, ?s1)"
    using scan_inserts [of "[]" 40] by (simp add: none maybeSingle_def)
  have second: "checkOverdueTasks 200 ?s1
      = (fst (checkOverdueTasks 200 ?s1), snd (checkOverdueTasks 200 ?s1))"
    by simp
  have t: "tasks ?s = [essay]" by (simp add: late_school_def school_def)
  have dedup: "\<forall>t \<in> set (tasks ?s). overdue 200 t \<longrightarrow> length (overdue_notifications ?s t) \<le> 1"
    by (simp add: t none)
  have creators: "\<forall>t \<in> set (tasks ?s). overdue 200 t \<longrightarrow> created_by t \<in> set (user_ids ?s)"
    using essay_creator [of "[]" 40] by (simp add: t)
  from checkOverdueTasks_idempotent [OF dedup creators first second]
  have "fst (checkOverdueTasks 200 ?s1) = Success 200 0 \<and> snd (checkOverdueTasks 200 ?s1) = ?s1"
    by simp
  then have "checkOverdueTasks 200 ?s1 = (Success 200 0, ?s1)"
    by (simp add: prod_eq_iff)
  moreover have "late_school [] 40 = school"
    by (simp add: late_school_def school_def)
  ultimately show ?thesis using first by simp
qed

end
